theory Spec2Isabelle
  imports Complex_Main
begin

section \<open>Data model\<close>

text \<open>
  The repository holds two near-identical copies of the game component:
  \<^verbatim>\<open>src/components/GameArena.tsx\<close> (the one \<^verbatim>\<open>App.tsx\<close> imports) and
  \<^verbatim>\<open>unnamed/part_000\<close>.  Functions that are textually the same in both files are
  embedded once.  Where the two files differ, both versions are embedded, with the suffix
  \<open>_arena\<close> for \<^verbatim>\<open>GameArena.tsx\<close> and \<open>_part0\<close> for \<^verbatim>\<open>unnamed/part_000\<close>.

  JavaScript numbers are modelled as \<^typ>\<open>real\<close> (rounding of IEEE doubles is not
  modelled); counters that only ever hold integers (\<open>fuseTime\<close>, \<open>movementLeft\<close>,
  \<open>bounces\<close>) are \<^typ>\<open>int\<close>, and the array index \<open>currentPlayer\<close> is \<^typ>\<open>nat\<close>.
  Record fields carry a prefix where the TypeScript name (\<open>x\<close>, \<open>y\<close>, \<open>id\<close>, \<open>team\<close>, ...)
  is shared between interfaces or clashes with a HOL constant.
\<close>

datatype team = vegan | meatLover

datatype gamePhase = setupPhase | movement | aiming | firing | gameOver

record character =
  char_id :: string
  char_team :: team
  char_x :: real
  char_y :: real
  health :: real
  maxHealth :: real
  char_name :: string
  char_vy :: real
  isGrounded :: bool
  fallDistance :: real
  movementLeft :: int
  hasJumped :: bool

record projectile =
  proj_x :: real
  proj_y :: real
  proj_vx :: real
  proj_vy :: real
  proj_type :: string
  proj_team :: team
  active :: bool
  bounces :: int
  fuseTime :: int

text \<open>An entry of the weapon tables; the display fields \<open>name\<close> and \<open>color\<close> are left out.\<close>

record weapon =
  weapon_id :: string
  weapon_damage :: real
  weapon_explosionRadius :: real
  weapon_bounces :: bool
  weapon_fuseTime :: int

text \<open>
  The \<open>explosions\<close> field of \<open>GameState\<close> (particles drawn on the canvas) is left out:
  no gameplay function reads it.
\<close>

record gameState =
  characters :: "character list"
  currentPlayer :: nat
  currentTeam :: team
  turnTimeLeft :: int
  wind :: real
  gamePhase :: gamePhase
  selectedWeapon :: string
  power :: real
  angle :: real
  projectiles :: "projectile list"
  terrain :: "real list"

section \<open>Terrain\<close>

text \<open>
  \<^verbatim>\<open>getTerrainHeight\<close>: \<^verbatim>\<open>terrain[Math.floor(x / 5)] || 400\<close>.  An index outside the
  array reads \<^verbatim>\<open>undefined\<close>, and \<^verbatim>\<open>undefined || 400\<close> as well as \<^verbatim>\<open>0 || 400\<close> is 400.
\<close>

definition getTerrainHeight :: "real \<Rightarrow> real list \<Rightarrow> real" where
  "getTerrainHeight x terr =
     (let index = \<lfloor>x / 5\<rfloor>
      in if 0 \<le> index \<and> nat index < length terr \<and> terr ! nat index \<noteq> 0
         then terr ! nat index else 400)"

text \<open>
  The loop \<^verbatim>\<open>for (let i = 0; i < terrainCopy.length; i++)\<close> of \<^verbatim>\<open>destroyTerrain\<close>; the
  body reads and writes \<^verbatim>\<open>terrainCopy[i]\<close> only, and is the parameter \<open>body\<close>.
\<close>

function destroyTerrain_loop :: "(nat \<Rightarrow> real \<Rightarrow> real) \<Rightarrow> nat \<Rightarrow> real list \<Rightarrow> real list" where
  "destroyTerrain_loop body i terrainCopy =
     (if i < length terrainCopy
      then destroyTerrain_loop body (Suc i) (terrainCopy[i := body i (terrainCopy ! i)])
      else terrainCopy)"
  by pat_completeness auto
termination
  by (relation "measure (\<lambda>(body, i, terrainCopy). length terrainCopy - i)") auto

text \<open>\<^verbatim>\<open>Math.sqrt((terrainX - x) ** 2 + (terrainCopy[i] - y) ** 2)\<close>\<close>

definition terrainDistance :: "real \<Rightarrow> real \<Rightarrow> nat \<Rightarrow> real \<Rightarrow> real" where
  "terrainDistance x y i h = sqrt ((real i * 5 - x)\<^sup>2 + (h - y)\<^sup>2)"

subsection \<open>\<^verbatim>\<open>destroyTerrain\<close> of \<^verbatim>\<open>unnamed/part_000\<close> (lines 1100-1142)\<close>

definition destructionAmount_part0 ::
  "real \<Rightarrow> real \<Rightarrow> string option \<Rightarrow> real \<Rightarrow> real \<Rightarrow> real" where
  "destructionAmount_part0 x radius weaponType terrainX distance =
     (let d0 = (1 - distance / radius) * radius * 2.5;
          d1 = (if weaponType = Some ''drill''
                then (let d = d0 * 4 in if \<bar>terrainX - x\<bar> < 20 then d * 2 else d)
                else d0);
          d2 = (if weaponType = Some ''grenade'' then d1 * 1.8 else d1)
      in d2)"

definition destroyPoint_part0 ::
  "real \<Rightarrow> real \<Rightarrow> real \<Rightarrow> string option \<Rightarrow> nat \<Rightarrow> real \<Rightarrow> real" where
  "destroyPoint_part0 x y radius weaponType i h =
     (let terrainX = real i * 5;
          distance = terrainDistance x y i h
      in if distance < radius
         then min (h + destructionAmount_part0 x radius weaponType terrainX distance) 500
         else h)"

definition destroyTerrain_part0 ::
  "gameState \<Rightarrow> real \<Rightarrow> real \<Rightarrow> real \<Rightarrow> string option \<Rightarrow> real list" where
  "destroyTerrain_part0 gs x y radius weaponType =
     destroyTerrain_loop (destroyPoint_part0 x y radius weaponType) 0 (terrain gs)"

subsection \<open>\<^verbatim>\<open>destroyTerrain\<close> of \<^verbatim>\<open>GameArena.tsx\<close> (lines 849-873)\<close>

definition destructionAmount_arena ::
  "real \<Rightarrow> real \<Rightarrow> string option \<Rightarrow> real \<Rightarrow> real \<Rightarrow> real" where
  "destructionAmount_arena x radius weaponType terrainX distance =
     (let d0 = (1 - distance / radius) * radius;
          d1 = (if weaponType = Some ''drill''
                then (let d = d0 * 2 in if \<bar>terrainX - x\<bar> < 15 then d * 1.5 else d)
                else d0)
      in d1)"

text \<open>Here the source has \<^verbatim>\<open>Math.max(terrainCopy[i] + destructionAmount, 500)\<close>.\<close>

definition destroyPoint_arena ::
  "real \<Rightarrow> real \<Rightarrow> real \<Rightarrow> string option \<Rightarrow> nat \<Rightarrow> real \<Rightarrow> real" where
  "destroyPoint_arena x y radius weaponType i h =
     (let terrainX = real i * 5;
          distance = terrainDistance x y i h
      in if distance < radius
         then max (h + destructionAmount_arena x radius weaponType terrainX distance) 500
         else h)"

definition destroyTerrain_arena ::
  "gameState \<Rightarrow> real \<Rightarrow> real \<Rightarrow> real \<Rightarrow> string option \<Rightarrow> real list" where
  "destroyTerrain_arena gs x y radius weaponType =
     destroyTerrain_loop (destroyPoint_arena x y radius weaponType) 0 (terrain gs)"

section \<open>Weapons\<close>

definition VEGAN_WEAPONS :: "weapon list" where
  "VEGAN_WEAPONS =
    [\<lparr>weapon_id = ''bazooka'', weapon_damage = 45, weapon_explosionRadius = 30,
      weapon_bounces = False, weapon_fuseTime = 0\<rparr>,
     \<lparr>weapon_id = ''grenade'', weapon_damage = 50, weapon_explosionRadius = 35,
      weapon_bounces = True, weapon_fuseTime = 180\<rparr>,
     \<lparr>weapon_id = ''shotgun'', weapon_damage = 25, weapon_explosionRadius = 15,
      weapon_bounces = False, weapon_fuseTime = 0\<rparr>,
     \<lparr>weapon_id = ''uzi'', weapon_damage = 15, weapon_explosionRadius = 10,
      weapon_bounces = False, weapon_fuseTime = 0\<rparr>,
     \<lparr>weapon_id = ''dynamite'', weapon_damage = 75, weapon_explosionRadius = 50,
      weapon_bounces = False, weapon_fuseTime = 300\<rparr>,
     \<lparr>weapon_id = ''drill'', weapon_damage = 20, weapon_explosionRadius = 60,
      weapon_bounces = False, weapon_fuseTime = 0\<rparr>]"

definition MEAT_WEAPONS :: "weapon list" where
  "MEAT_WEAPONS = VEGAN_WEAPONS"

text \<open>\<^verbatim>\<open>[...VEGAN_WEAPONS, ...MEAT_WEAPONS].find(w => w.id === t)\<close>\<close>

definition findWeapon :: "string \<Rightarrow> weapon option" where
  "findWeapon t = find (\<lambda>w. weapon_id w = t) (VEGAN_WEAPONS @ MEAT_WEAPONS)"

text \<open>\<^verbatim>\<open>weapon ? weapon.explosionRadius || weapon.damage : dflt\<close>\<close>

definition explosionRadiusOf :: "real \<Rightarrow> weapon option \<Rightarrow> real" where
  "explosionRadiusOf dflt w =
     (case w of None \<Rightarrow> dflt
      | Some wp \<Rightarrow> if weapon_explosionRadius wp \<noteq> 0 then weapon_explosionRadius wp
                   else weapon_damage wp)"

text \<open>\<^verbatim>\<open>weapon?.damage || dflt\<close>\<close>

definition damageOf :: "real \<Rightarrow> weapon option \<Rightarrow> real" where
  "damageOf dflt w =
     (case w of None \<Rightarrow> dflt
      | Some wp \<Rightarrow> if weapon_damage wp \<noteq> 0 then weapon_damage wp else dflt)"

text \<open>\<^verbatim>\<open>weapon?.fuseTime || 0\<close>\<close>

definition fuseTimeOf :: "weapon option \<Rightarrow> int" where
  "fuseTimeOf w = (case w of None \<Rightarrow> 0 | Some wp \<Rightarrow> weapon_fuseTime wp)"

section \<open>Collision and damage\<close>

text \<open>
  \<^verbatim>\<open>checkCollision\<close>, \<^verbatim>\<open>applyDamage\<close> and \<^verbatim>\<open>destroyTerrain\<close> read the component's
  \<^verbatim>\<open>gameState\<close> (the state of the last render), not the \<^verbatim>\<open>prev\<close> of the state updater
  that calls them; that state is their first argument \<open>gs\<close>.
\<close>

definition checkCollision :: "gameState \<Rightarrow> projectile \<Rightarrow> bool" where
  "checkCollision gs proj =
     (if proj_x proj < 0 \<or> proj_x proj > 1000 \<or> proj_y proj > 500 then True
      else if (if length (terrain gs) > 0
               then proj_y proj \<ge> getTerrainHeight (proj_x proj) (terrain gs) - 5
               else proj_y proj \<ge> (400 - sin (proj_x proj * 0.01) * 50) - 5) then True
      else list_ex (\<lambda>char. \<not> health char \<le> 0 \<and>
             sqrt ((proj_x proj - char_x char)\<^sup>2 + (proj_y proj - char_y char)\<^sup>2) < 20)
             (characters gs))"

text \<open>The callback of \<^verbatim>\<open>gameState.characters.map\<close> in \<^verbatim>\<open>applyDamage\<close>.\<close>

definition damageCharacter :: "real \<Rightarrow> real \<Rightarrow> real \<Rightarrow> real \<Rightarrow> character \<Rightarrow> character" where
  "damageCharacter explosionX explosionY damage radius char =
     (if health char \<le> 0 then char
      else
        (let distance = sqrt ((char_x char - explosionX)\<^sup>2 + (char_y char - explosionY)\<^sup>2)
         in if distance < radius
            then (let damageMultiplier = 1 - distance / radius;
                      actualDamage = \<lfloor>damage * damageMultiplier\<rfloor>
                  in char\<lparr>health := max 0 (health char - of_int actualDamage)\<rparr>)
            else char))"

definition applyDamage :: "gameState \<Rightarrow> real \<Rightarrow> real \<Rightarrow> real \<Rightarrow> real \<Rightarrow> character list" where
  "applyDamage gs explosionX explosionY damage radius =
     map (damageCharacter explosionX explosionY damage radius) (characters gs)"

section \<open>Character kinematics\<close>

text \<open>The fall damage computed in the landing branch of \<^verbatim>\<open>updateCharacterGravity\<close>.\<close>

definition fallDamage :: "real \<Rightarrow> int" where
  "fallDamage newFallDistance =
     (if newFallDistance > 50 then min \<lfloor>(newFallDistance - 50) / 10\<rfloor> 80 else 0)"

text \<open>The callback of \<^verbatim>\<open>characters.map\<close> in \<^verbatim>\<open>updateCharacterGravity\<close>.\<close>

definition gravityCharacter :: "real list \<Rightarrow> character \<Rightarrow> character" where
  "gravityCharacter terr char =
     (if health char \<le> 0 then char
      else
        (let terrainHeight = getTerrainHeight (char_x char) terr;
             groundLevel = terrainHeight - 20
         in if char_y char < groundLevel
            then (let newVy = char_vy char + 0.8;
                      newY = char_y char + newVy;
                      newFallDistance = fallDistance char + \<bar>newVy\<bar>
                  in if newY \<ge> groundLevel
                     then char\<lparr>char_y := groundLevel, char_vy := 0, isGrounded := True,
                               fallDistance := 0,
                               health := max 0 (health char - of_int (fallDamage newFallDistance))\<rparr>
                     else char\<lparr>char_y := newY, char_vy := newVy, isGrounded := False,
                               fallDistance := newFallDistance\<rparr>)
            else char\<lparr>char_y := groundLevel, char_vy := 0, isGrounded := True,
                      fallDistance := 0\<rparr>))"

definition updateCharacterGravity :: "character list \<Rightarrow> real list \<Rightarrow> character list" where
  "updateCharacterGravity chars terr = map (gravityCharacter terr) chars"

section \<open>Player commands\<close>

text \<open>
  A command reads \<^verbatim>\<open>gameState\<close> (argument \<open>gs\<close>) for its guard and its new values and then
  calls \<^verbatim>\<open>setGameState(prev => ...)\<close>; the model returns the state that replaces \<open>prev\<close>.
  A command that returns early calls nothing, so the state stays \<open>prev\<close>.
  \<^verbatim>\<open>!currentChar\<close> holds when \<open>currentPlayer\<close> is not an index of \<open>characters\<close>.
\<close>

datatype direction = left | right

definition moveCharacter :: "direction \<Rightarrow> gameState \<Rightarrow> gameState \<Rightarrow> gameState" where
  "moveCharacter dir gs prev =
     (if \<not> currentPlayer gs < length (characters gs) then prev
      else
        (let currentChar = characters gs ! currentPlayer gs
         in if gamePhase gs \<noteq> movement \<or> movementLeft currentChar \<le> 0 then prev
            else
              (let moveDistance = 5;
                   newX = (case dir of left \<Rightarrow> max 20 (char_x currentChar - moveDistance)
                           | right \<Rightarrow> min 980 (char_x currentChar + moveDistance));
                   terrainHeight = getTerrainHeight newX (terrain gs);
                   newY = terrainHeight - 20
               in prev\<lparr>characters :=
                    map (\<lambda>char. if char_id char = char_id currentChar
                                then char\<lparr>char_x := newX, char_y := newY,
                                          movementLeft := movementLeft char - 1\<rparr>
                                else char)
                        (characters prev)\<rparr>)))"

definition jumpCharacter :: "gameState \<Rightarrow> gameState \<Rightarrow> gameState" where
  "jumpCharacter gs prev =
     (if \<not> currentPlayer gs < length (characters gs) then prev
      else
        (let currentChar = characters gs ! currentPlayer gs
         in if gamePhase gs \<noteq> movement \<or> hasJumped currentChar \<or> \<not> isGrounded currentChar
            then prev
            else prev\<lparr>characters :=
                   map (\<lambda>char. if char_id char = char_id currentChar
                               then char\<lparr>char_vy := -12, isGrounded := False,
                                         hasJumped := True, fallDistance := 0\<rparr>
                               else char)
                       (characters prev)\<rparr>))"

definition endMovementPhase :: "gameState \<Rightarrow> gameState" where
  "endMovementPhase prev = prev\<lparr>gamePhase := aiming\<rparr>"

section \<open>Ballistics\<close>

text \<open>
  The grenade's physics and its three bounce checks (\<^verbatim>\<open>GameArena.tsx\<close> lines 1039-1067,
  \<^verbatim>\<open>unnamed/part_000\<close> lines 1336-1370): the same arithmetic in both files, written with
  in-place updates of \<^verbatim>\<open>proj\<close> in the first and with fresh variables in the second.
\<close>

definition grenadePhysics :: "real \<Rightarrow> real list \<Rightarrow> projectile \<Rightarrow> projectile" where
  "grenadePhysics w terr proj =
     (let vx1 = proj_vx proj + w * 0.02;
          vy1 = proj_vy proj + 0.5;
          x1 = proj_x proj + vx1;
          y1 = proj_y proj + vy1;
          (vx2, x2) = (if x1 \<le> 0 \<or> x1 \<ge> 1000
                       then (- vx1 * 0.4, if x1 \<le> 0 then 0 else 1000) else (vx1, x1));
          (vy2, y2) = (if y1 \<le> 0 then (- vy1 * 0.4, 0) else (vy1, y1));
          terrainHeight = getTerrainHeight x2 terr;
          (vx3, vy3, y3) = (if y2 \<ge> terrainHeight - 5
                            then (vx2 * 0.6, - \<bar>vy2\<bar> * 0.4, terrainHeight - 5)
                            else (vx2, vy2, y2))
      in proj\<lparr>proj_x := x2, proj_y := y3, proj_vx := vx3, proj_vy := vy3\<rparr>)"

text \<open>The flag \<^verbatim>\<open>bounced\<close> of the same code: one of the three bounce checks fired.\<close>

definition grenadeBounced :: "real \<Rightarrow> real list \<Rightarrow> projectile \<Rightarrow> bool" where
  "grenadeBounced w terr proj =
     (let vx1 = proj_vx proj + w * 0.02;
          vy1 = proj_vy proj + 0.5;
          x1 = proj_x proj + vx1;
          y1 = proj_y proj + vy1;
          x2 = (if x1 \<le> 0 \<or> x1 \<ge> 1000 then (if x1 \<le> 0 then 0 else 1000) else x1);
          y2 = (if y1 \<le> 0 then 0 else y1);
          terrainHeight = getTerrainHeight x2 terr
      in (x1 \<le> 0 \<or> x1 \<ge> 1000) \<or> y1 \<le> 0 \<or> y2 \<ge> terrainHeight - 5)"

text \<open>
  The callback of \<^verbatim>\<open>prev.projectiles.map\<close> in \<^verbatim>\<open>updateProjectiles\<close> assigns the outer
  variables \<^verbatim>\<open>newTerrain\<close> and \<^verbatim>\<open>newCharacters\<close>; the model threads them as the pair \<open>acc\<close>.
  The branch for projectiles other than grenades is the same in both files except for the
  \<^verbatim>\<open>destroyTerrain\<close> it calls, which is the parameter \<open>destroy\<close>.
\<close>

type_synonym acc = "real list \<times> character list"

definition standardStep ::
  "(gameState \<Rightarrow> real \<Rightarrow> real \<Rightarrow> real \<Rightarrow> string option \<Rightarrow> real list) \<Rightarrow>
   gameState \<Rightarrow> gameState \<Rightarrow> projectile \<Rightarrow> acc \<Rightarrow> projectile \<times> acc" where
  "standardStep destroy gs prev proj acc =
     (let weapon = findWeapon (proj_type proj);
          updatedProj = proj\<lparr>proj_vx := proj_vx proj + wind prev * 0.02,
                             proj_vy := proj_vy proj + 0.5,
                             proj_x := proj_x proj + proj_vx proj,
                             proj_y := proj_y proj + proj_vy proj\<rparr>;
          (updatedProj1, acc1) =
            (if checkCollision gs updatedProj
             then (let explosionRadius = explosionRadiusOf 30 weapon
                   in (updatedProj\<lparr>active := False\<rparr>,
                       (destroy gs (proj_x updatedProj) (proj_y updatedProj) explosionRadius
                          (Some (proj_type updatedProj)),
                        applyDamage gs (proj_x updatedProj) (proj_y updatedProj)
                          (damageOf 30 weapon) explosionRadius)))
             else (updatedProj, acc));
          updatedProj2 =
            (if proj_type updatedProj1 \<noteq> ''grenade'' \<and>
                (proj_x updatedProj1 < -50 \<or> proj_x updatedProj1 > 1050 \<or> proj_y updatedProj1 > 550)
             then updatedProj1\<lparr>active := False\<rparr> else updatedProj1)
      in (updatedProj2, acc1))"

text \<open>\<^verbatim>\<open>GameArena.tsx\<close>: physics and bounces, then \<^verbatim>\<open>proj.fuseTime--\<close>, then the fuse check.\<close>

definition stepProjectile_arena ::
  "gameState \<Rightarrow> gameState \<Rightarrow> projectile \<Rightarrow> acc \<Rightarrow> projectile \<times> acc" where
  "stepProjectile_arena gs prev proj acc =
     (if \<not> active proj then (proj, acc)
      else if proj_type proj = ''grenade''
      then (let weapon = findWeapon (proj_type proj);
                proj1 = grenadePhysics (wind prev) (terrain prev) proj;
                proj2 = proj1\<lparr>fuseTime := fuseTime proj1 - 1\<rparr>
            in if fuseTime proj2 \<le> 0
               then (let explosionRadius = explosionRadiusOf 30 weapon
                     in (proj2\<lparr>active := False\<rparr>,
                         (destroyTerrain_arena gs (proj_x proj2) (proj_y proj2) explosionRadius
                            (Some (proj_type proj2)),
                          applyDamage gs (proj_x proj2) (proj_y proj2)
                            (damageOf 30 weapon) explosionRadius)))
               else (proj2, acc))
      else standardStep destroyTerrain_arena gs prev proj acc)"

text \<open>\<^verbatim>\<open>unnamed/part_000\<close>: the fuse check first, then the decrement and the physics.\<close>

definition stepProjectile_part0 ::
  "gameState \<Rightarrow> gameState \<Rightarrow> projectile \<Rightarrow> acc \<Rightarrow> projectile \<times> acc" where
  "stepProjectile_part0 gs prev proj acc =
     (if \<not> active proj then (proj, acc)
      else if proj_type proj = ''grenade''
      then (let weapon = findWeapon (proj_type proj)
            in if fuseTime proj \<le> 0
               then (let explosionRadius = explosionRadiusOf 35 weapon
                     in (proj\<lparr>active := False\<rparr>,
                         (destroyTerrain_part0 gs (proj_x proj) (proj_y proj) explosionRadius
                            (Some (proj_type proj)),
                          applyDamage gs (proj_x proj) (proj_y proj)
                            (damageOf 50 weapon) explosionRadius)))
               else (let newFuseTime = fuseTime proj - 1;
                         proj1 = grenadePhysics (wind prev) (terrain prev) proj
                     in (proj1\<lparr>fuseTime := newFuseTime\<rparr>, acc)))
      else standardStep destroyTerrain_part0 gs prev proj acc)"

fun mapProjectiles ::
  "(projectile \<Rightarrow> acc \<Rightarrow> projectile \<times> acc) \<Rightarrow> projectile list \<Rightarrow> acc \<Rightarrow> projectile list \<times> acc" where
  "mapProjectiles f [] acc = ([], acc)"
| "mapProjectiles f (p # ps) acc =
     (let (p', acc1) = f p acc;
          (ps', acc2) = mapProjectiles f ps acc1
      in (p' # ps', acc2))"

text \<open>
  The state updater of \<^verbatim>\<open>updateProjectiles\<close>, for a step function \<open>f\<close>: map, filter the
  active projectiles, then \<^verbatim>\<open>updateCharacterGravity(newCharacters, newTerrain)\<close>.
\<close>

definition updateProjectilesWith ::
  "(projectile \<Rightarrow> acc \<Rightarrow> projectile \<times> acc) \<Rightarrow> gameState \<Rightarrow> gameState" where
  "updateProjectilesWith f prev =
     (let (updated, newTerrain, newCharacters) =
            mapProjectiles f (projectiles prev) (terrain prev, characters prev);
          updatedProjectiles = filter active updated
      in prev\<lparr>projectiles := updatedProjectiles, terrain := newTerrain,
              characters := updateCharacterGravity newCharacters newTerrain\<rparr>)"

definition updateProjectiles_arena :: "gameState \<Rightarrow> gameState \<Rightarrow> gameState" where
  "updateProjectiles_arena gs prev = updateProjectilesWith (stepProjectile_arena gs prev) prev"

definition updateProjectiles_part0 :: "gameState \<Rightarrow> gameState \<Rightarrow> gameState" where
  "updateProjectiles_part0 gs prev = updateProjectilesWith (stepProjectile_part0 gs prev) prev"

text \<open>
  One simulation tick: \<^verbatim>\<open>updateProjectiles\<close> called from the game loop on the rendered
  state, with no other update pending (so \<^verbatim>\<open>prev\<close> is \<^verbatim>\<open>gameState\<close>).
\<close>

definition tick_arena :: "gameState \<Rightarrow> gameState" where
  "tick_arena s = updateProjectiles_arena s s"

definition tick_part0 :: "gameState \<Rightarrow> gameState" where
  "tick_part0 s = updateProjectiles_part0 s s"

section \<open>Firing and turn switch\<close>

text \<open>
  \<^verbatim>\<open>fireWeapon\<close> changes the state at once and registers \<^verbatim>\<open>setTimeout\<close> callbacks.  The
  model returns the new state and the list of registered callbacks, each with its delay
  in milliseconds.
\<close>

datatype timerEvent = AddProjectile projectile | SwitchTurn

definition fireWeapon_arena :: "gameState \<Rightarrow> gameState \<Rightarrow> gameState \<times> (nat \<times> timerEvent) list" where
  "fireWeapon_arena gs prev =
     (if \<not> currentPlayer gs < length (characters gs) then (prev, [])
      else
        (let currentChar = characters gs ! currentPlayer gs
         in if gamePhase gs \<noteq> aiming then (prev, [])
            else
              (let pw = (power gs / 100) * 25;
                   ang = (angle gs * pi) / 180;
                   vx = cos ang * pw;
                   vy = - sin ang * pw;
                   weapon = findWeapon (selectedWeapon gs);
                   projectile = \<lparr>proj_x = char_x currentChar, proj_y = char_y currentChar - 10,
                                 proj_vx = vx, proj_vy = vy, proj_type = selectedWeapon gs,
                                 proj_team = char_team currentChar, active = True, bounces = 0,
                                 fuseTime = fuseTimeOf weapon\<rparr>
               in (prev\<lparr>projectiles := projectiles prev @ [projectile], gamePhase := firing\<rparr>,
                   [(3000, SwitchTurn)]))))"

text \<open>
  In \<^verbatim>\<open>unnamed/part_000\<close> the uzi fires a burst.  Each bullet draws four numbers from
  \<^verbatim>\<open>Math.random()\<close>; \<open>rnd k\<close> is the \<open>k\<close>-th number drawn during the call.
\<close>

definition uziBullet ::
  "(nat \<Rightarrow> real) \<Rightarrow> gameState \<Rightarrow> character \<Rightarrow> real \<Rightarrow> real \<Rightarrow> nat \<Rightarrow> projectile" where
  "uziBullet rnd gs currentChar pw ang i =
     (let spreadAngle = (rnd (4 * i) - 0.5) * 0.3;
          spreadPower = 0.9 + rnd (4 * i + 1) * 0.2;
          vx = cos (ang + spreadAngle) * pw * spreadPower;
          vy = - sin (ang + spreadAngle) * pw * spreadPower
      in \<lparr>proj_x = char_x currentChar + (rnd (4 * i + 2) - 0.5) * 4,
          proj_y = char_y currentChar - 10 + (rnd (4 * i + 3) - 0.5) * 2,
          proj_vx = vx, proj_vy = vy, proj_type = selectedWeapon gs,
          proj_team = char_team currentChar, active = True, bounces = 0,
          fuseTime = fuseTimeOf (findWeapon (selectedWeapon gs))\<rparr>)"

definition fireWeapon_part0 ::
  "(nat \<Rightarrow> real) \<Rightarrow> gameState \<Rightarrow> gameState \<Rightarrow> gameState \<times> (nat \<times> timerEvent) list" where
  "fireWeapon_part0 rnd gs prev =
     (if \<not> currentPlayer gs < length (characters gs) then (prev, [])
      else
        (let currentChar = characters gs ! currentPlayer gs
         in if gamePhase gs \<noteq> aiming then (prev, [])
            else
              (let pw = (power gs / 100) * 25;
                   ang = (angle gs * pi) / 180;
                   baseVx = cos ang * pw;
                   baseVy = - sin ang * pw;
                   weapon = findWeapon (selectedWeapon gs);
                   turnDelay = (if selectedWeapon gs = ''uzi'' then 4000 else 3000)
               in if selectedWeapon gs = ''uzi''
                  then (let burstCount = 5;
                            bullets = map (uziBullet rnd gs currentChar pw ang) [0..<burstCount]
                        in (prev\<lparr>gamePhase := firing\<rparr>,
                            map (\<lambda>(index, projectile). (index * 80, AddProjectile projectile))
                                (enumerate 0 bullets)
                            @ [(turnDelay, SwitchTurn)]))
                  else (let projectile =
                              \<lparr>proj_x = char_x currentChar, proj_y = char_y currentChar - 10,
                               proj_vx = baseVx, proj_vy = baseVy, proj_type = selectedWeapon gs,
                               proj_team = char_team currentChar, active = True, bounces = 0,
                               fuseTime = fuseTimeOf weapon\<rparr>
                        in (prev\<lparr>projectiles := projectiles prev @ [projectile],
                                  gamePhase := firing\<rparr>,
                            [(turnDelay, SwitchTurn)])))))"

text \<open>
  \<^verbatim>\<open>while (prev.characters[nextPlayerIndex].health <= 0) nextPlayerIndex = ...\<close>.
  The loop has no bound of its own; \<open>None\<close> stands for a run that does not return
  (no end, or the \<^verbatim>\<open>TypeError\<close> of reading \<^verbatim>\<open>.health\<close> of \<^verbatim>\<open>undefined\<close>).
\<close>

partial_function (option) nextAlive :: "character list \<Rightarrow> nat \<Rightarrow> nat option" where
  "nextAlive chars nextPlayerIndex =
     (if \<not> nextPlayerIndex < length chars then None
      else if health (chars ! nextPlayerIndex) \<le> 0
      then nextAlive chars ((nextPlayerIndex + 1) mod length chars)
      else Some nextPlayerIndex)"

text \<open>
  The callback of the turn timer (the same in both files); \<open>r\<close> is the number drawn from
  \<^verbatim>\<open>Math.random()\<close> for the new wind.
\<close>

definition switchTurn :: "real \<Rightarrow> gameState \<Rightarrow> gameState option" where
  "switchTurn r prev =
     (let aliveCharacters = filter (\<lambda>c. health c > 0) (characters prev);
          aliveVegans = filter (\<lambda>c. char_team c = vegan) aliveCharacters;
          aliveMeatLovers = filter (\<lambda>c. char_team c = meatLover) aliveCharacters
      in if length aliveVegans = 0
         then Some (prev\<lparr>gamePhase := gameOver, currentTeam := meatLover\<rparr>)
         else if length aliveMeatLovers = 0
         then Some (prev\<lparr>gamePhase := gameOver, currentTeam := vegan\<rparr>)
         else
           (case nextAlive (characters prev)
                   ((currentPlayer prev + 1) mod length (characters prev)) of
              None \<Rightarrow> None
            | Some nextPlayerIndex \<Rightarrow>
                (let nextChar = characters prev ! nextPlayerIndex
                 in Some (prev\<lparr>currentPlayer := nextPlayerIndex,
                               currentTeam := char_team nextChar,
                               gamePhase := movement,
                               turnTimeLeft := 30,
                               wind := r * 20 - 10,
                               characters :=
                                 map (\<lambda>char. char\<lparr>movementLeft := 60, hasJumped := False\<rparr>)
                                     (characters prev)\<rparr>))))"

section \<open>Match start\<close>

text \<open>The six characters that \<^verbatim>\<open>initializeGame\<close> places on the generated terrain.\<close>

definition newCharacter :: "string \<Rightarrow> team \<Rightarrow> real \<Rightarrow> string \<Rightarrow> real list \<Rightarrow> character" where
  "newCharacter i t x n terrainPoints =
     \<lparr>char_id = i, char_team = t, char_x = x, char_y = getTerrainHeight x terrainPoints - 20,
      health = 100, maxHealth = 100, char_name = n, char_vy = 0, isGrounded = True,
      fallDistance = 0, movementLeft = 60, hasJumped = False\<rparr>"

definition initialCharacters :: "real list \<Rightarrow> character list" where
  "initialCharacters terrainPoints =
     [newCharacter ''v1'' vegan 150 ''Kale'' terrainPoints,
      newCharacter ''v2'' vegan 250 ''Quinoa'' terrainPoints,
      newCharacter ''v3'' vegan 350 ''Tofu'' terrainPoints,
      newCharacter ''m1'' meatLover 650 ''Beef'' terrainPoints,
      newCharacter ''m2'' meatLover 750 ''Bacon'' terrainPoints,
      newCharacter ''m3'' meatLover 850 ''Steak'' terrainPoints]"

text \<open>
  The initial value of \<^verbatim>\<open>useState\<close>, and the state update of \<^verbatim>\<open>initializeGame\<close>.  The
  generated terrain (which contains random noise) and the number drawn for the wind are
  parameters.
\<close>

definition initialState :: gameState where
  "initialState =
     \<lparr>characters = [], currentPlayer = 0, currentTeam = vegan, turnTimeLeft = 30, wind = 0,
      gamePhase = setupPhase, selectedWeapon = ''bazooka'', power = 50, angle = 45,
      projectiles = [], terrain = []\<rparr>"

definition initializeGame :: "real list \<Rightarrow> real \<Rightarrow> gameState \<Rightarrow> gameState" where
  "initializeGame terrainPoints r prev =
     prev\<lparr>characters := initialCharacters terrainPoints, terrain := terrainPoints,
          wind := r * 20 - 10, gamePhase := movement\<rparr>"

section \<open>Notions used in the statements\<close>

text \<open>The health invariant of the data model: \<open>0 \<le> health \<le> maxHealth\<close>.\<close>

definition healthInRange :: "character \<Rightarrow> bool" where
  "healthInRange c = (0 \<le> health c \<and> health c \<le> maxHealth c)"

text \<open>
  What a tick does to a grenade that does not explode in it (both files): the physics and
  one unit off the fuse; \<open>grenadeFlight w terr k\<close> is \<open>k\<close> such ticks.
\<close>

definition grenadeAdvance :: "real \<Rightarrow> real list \<Rightarrow> projectile \<Rightarrow> projectile" where
  "grenadeAdvance w terr proj = (grenadePhysics w terr proj)\<lparr>fuseTime := fuseTime proj - 1\<rparr>"

fun grenadeFlight :: "real \<Rightarrow> real list \<Rightarrow> nat \<Rightarrow> projectile \<Rightarrow> projectile" where
  "grenadeFlight w terr 0 proj = proj"
| "grenadeFlight w terr (Suc k) proj = grenadeAdvance w terr (grenadeFlight w terr k proj)"

text \<open>The grenade meets no bouncing surface in any of its first \<open>k\<close> ticks.\<close>

fun freeFlight :: "real \<Rightarrow> real list \<Rightarrow> nat \<Rightarrow> projectile \<Rightarrow> bool" where
  "freeFlight w terr 0 proj = True"
| "freeFlight w terr (Suc k) proj =
     (freeFlight w terr k proj \<and> \<not> grenadeBounced w terr (grenadeFlight w terr k proj))"

section \<open>Example states\<close>

text \<open>A match on flat ground of height 400, with wind 0.\<close>

definition flatTerrain :: "real list" where
  "flatTerrain = replicate 200 400"

definition flatMatch :: gameState where
  "flatMatch = initializeGame flatTerrain (1/2) initialState"

text \<open>The same match after every character was brought down to 10 health.\<close>

definition woundedMatch :: gameState where
  "woundedMatch = flatMatch\<lparr>characters := map (\<lambda>c. c\<lparr>health := 10\<rparr>) (characters flatMatch)\<rparr>"

text \<open>The first character in the air, 5 units above the ground, after a fall of 50 units.\<close>

definition fallingMatch :: gameState where
  "fallingMatch =
     flatMatch\<lparr>characters :=
       (characters flatMatch)[0 := (characters flatMatch ! 0)
          \<lparr>char_y := 375, char_vy := 9.2, isGrounded := False, fallDistance := 50\<rparr>]\<rparr>"

text \<open>The same landing after a fall of 840 units.\<close>

definition longFallMatch :: gameState where
  "longFallMatch =
     flatMatch\<lparr>characters :=
       (characters flatMatch)[0 := (characters flatMatch ! 0)
          \<lparr>char_y := 375, char_vy := 9.2, isGrounded := False, fallDistance := 840\<rparr>]\<rparr>"

text \<open>The first character at the left limit of the arena.\<close>

definition leftEdgeMatch :: gameState where
  "leftEdgeMatch =
     flatMatch\<lparr>characters := (characters flatMatch)[0 := (characters flatMatch ! 0)\<lparr>char_x := 20\<rparr>]\<rparr>"

text \<open>The aiming phase of that match with the grenade and with the uzi selected.\<close>

definition grenadeAim :: gameState where
  "grenadeAim = flatMatch\<lparr>gamePhase := aiming, selectedWeapon := ''grenade''\<rparr>"

definition uziAim :: gameState where
  "uziAim = flatMatch\<lparr>gamePhase := aiming, selectedWeapon := ''uzi''\<rparr>"

text \<open>
  A grenade with a fuse of 180 dropped at rest from \<open>(500, 10)\<close> over ground that lies at
  height 100000, with no wind: nothing is in its way for more than 180 ticks.
\<close>

definition deepTerrain :: "real list" where
  "deepTerrain = replicate 200 100000"

definition droppedGrenade :: projectile where
  "droppedGrenade =
     \<lparr>proj_x = 500, proj_y = 10, proj_vx = 0, proj_vy = 0, proj_type = ''grenade'',
      proj_team = vegan, active = True, bounces = 0, fuseTime = 180\<rparr>"

definition deepMatch :: gameState where
  "deepMatch =
     (initializeGame deepTerrain (1/2) initialState)
       \<lparr>gamePhase := firing, projectiles := [droppedGrenade]\<rparr>"

text \<open>A match in which the two characters left are one of each team.\<close>

definition duelMatch :: gameState where
  "duelMatch =
     flatMatch\<lparr>gamePhase := firing,
       characters := map (\<lambda>c. if char_id c = ''v1'' \<or> char_id c = ''m2'' then c
                               else c\<lparr>health := 0\<rparr>) (characters flatMatch)\<rparr>"

text \<open>Matches in which only \<open>v1\<close>, and only \<open>m2\<close>, is left alive.\<close>

definition veganWinMatch :: gameState where
  "veganWinMatch =
     flatMatch\<lparr>gamePhase := firing,
       characters := map (\<lambda>c. if char_id c = ''v1'' then c else c\<lparr>health := 0\<rparr>)
                         (characters flatMatch)\<rparr>"

definition meatWinMatch :: gameState where
  "meatWinMatch =
     flatMatch\<lparr>gamePhase := firing,
       characters := map (\<lambda>c. if char_id c = ''m2'' then c else c\<lparr>health := 0\<rparr>)
                         (characters flatMatch)\<rparr>"

section \<open>Example states, unfolded\<close>

lemma flatMatch_terrain [simp]: "terrain flatMatch = flatTerrain"
  by (simp add: flatMatch_def initializeGame_def)

lemma flatTerrain_length [simp]: "length flatTerrain = 200"
  by (simp add: flatTerrain_def)

lemma flatTerrain_nth [simp]: "i < 200 \<Longrightarrow> flatTerrain ! i = 400"
  by (simp add: flatTerrain_def)

lemma flatMatch_characters: "characters flatMatch = initialCharacters flatTerrain"
  by (simp add: flatMatch_def initializeGame_def)

lemma flatMatch_fields [simp]:
  "currentPlayer flatMatch = 0" "gamePhase flatMatch = movement" "wind flatMatch = 0"
  "projectiles flatMatch = []" "length (characters flatMatch) = 6"
  by (simp_all add: flatMatch_def initializeGame_def initialState_def initialCharacters_def)

lemma getTerrainHeight_flat [simp]:
  "0 \<le> x \<Longrightarrow> x < 1000 \<Longrightarrow> getTerrainHeight x flatTerrain = 400"
proof -
  assume a: "0 \<le> x" "x < 1000"
  have "0 \<le> \<lfloor>x / 5\<rfloor>" using a by simp
  moreover have "\<lfloor>x / 5\<rfloor> < 200" using a by (simp add: floor_less_iff)
  ultimately show ?thesis by (simp add: getTerrainHeight_def Let_def)
qed

lemma flatMatch_char0 [simp]:
  "characters flatMatch ! 0 = newCharacter ''v1'' vegan 150 ''Kale'' flatTerrain"
  "characters flatMatch ! Suc 0 = newCharacter ''v2'' vegan 250 ''Quinoa'' flatTerrain"
  by (simp_all add: flatMatch_characters initialCharacters_def)

section \<open>Terrain erosion\<close>

declare destroyTerrain_loop.simps [simp del]

lemma destroyTerrain_loop_length:
  "length (destroyTerrain_loop body i tc) = length tc"
proof (induction body i tc rule: destroyTerrain_loop.induct)
  case (1 body i tc)
  show ?case
  proof (cases "i < length tc")
    case True
    then show ?thesis using 1 by (subst destroyTerrain_loop.simps) simp
  next
    case False
    then show ?thesis by (subst destroyTerrain_loop.simps) simp
  qed
qed

lemma destroyTerrain_loop_nth:
  "j < length tc \<Longrightarrow>
   destroyTerrain_loop body i tc ! j = (if i \<le> j then body j (tc ! j) else tc ! j)"
proof (induction body i tc rule: destroyTerrain_loop.induct)
  case (1 body i tc)
  show ?case
  proof (cases "i < length tc")
    case True
    have "destroyTerrain_loop body i tc ! j =
          destroyTerrain_loop body (Suc i) (tc[i := body i (tc ! i)]) ! j"
      using True by (subst destroyTerrain_loop.simps) simp
    also have "\<dots> = (if Suc i \<le> j then body j (tc[i := body i (tc ! i)] ! j)
                      else tc[i := body i (tc ! i)] ! j)"
      using 1(1)[OF True] 1(2) by simp
    also have "\<dots> = (if i \<le> j then body j (tc ! j) else tc ! j)"
      using 1(2) True by (cases "i = j") auto
    finally show ?thesis .
  next
    case False
    then show ?thesis using 1(2) by (subst destroyTerrain_loop.simps) simp
  qed
qed

lemma terrainDistance_nonneg: "0 \<le> terrainDistance x y i h"
  by (simp add: terrainDistance_def)

lemma falloff_nonneg:
  fixes d radius :: real
  assumes "0 \<le> d" "d < radius"
  shows "0 \<le> (1 - d / radius) * radius"
proof -
  have r: "0 < radius" using assms by linarith
  then have "(1 - d / radius) * radius = radius - d" by (simp add: field_simps)
  then show ?thesis using assms by simp
qed

lemma destructionAmount_part0_eq:
  "destructionAmount_part0 x radius w tx d =
     (1 - d / radius) * radius * 2.5
       * (if w = Some ''drill'' then 4 * (if \<bar>tx - x\<bar> < 20 then 2 else 1) else 1)
       * (if w = Some ''grenade'' then 1.8 else 1)"
  by (simp add: destructionAmount_part0_def Let_def)

lemma destructionAmount_arena_eq:
  "destructionAmount_arena x radius w tx d =
     (1 - d / radius) * radius
       * (if w = Some ''drill'' then 2 * (if \<bar>tx - x\<bar> < 15 then 1.5 else 1) else 1)"
  by (simp add: destructionAmount_arena_def Let_def)

lemma destructionAmount_part0_nonneg:
  assumes "0 \<le> d" "d < radius"
  shows "0 \<le> destructionAmount_part0 x radius w tx d"
  unfolding destructionAmount_part0_eq
  by (intro mult_nonneg_nonneg falloff_nonneg[OF assms]) simp_all

lemma destructionAmount_arena_nonneg:
  assumes "0 \<le> d" "d < radius"
  shows "0 \<le> destructionAmount_arena x radius w tx d"
  unfolding destructionAmount_arena_eq
  by (intro mult_nonneg_nonneg falloff_nonneg[OF assms]) simp_all

lemma destroyPoint_part0_lower:
  assumes "h \<le> 500"
  shows "h \<le> destroyPoint_part0 x y radius w i h"
proof (cases "terrainDistance x y i h < radius")
  case True
  from destructionAmount_part0_nonneg[OF terrainDistance_nonneg True]
  have "0 \<le> destructionAmount_part0 x radius w (real i * 5) (terrainDistance x y i h)" .
  with assms True show ?thesis by (simp add: destroyPoint_part0_def Let_def)
next
  case False
  then show ?thesis by (simp add: destroyPoint_part0_def Let_def)
qed

lemma destroyPoint_part0_upper: "h \<le> 500 \<Longrightarrow> destroyPoint_part0 x y radius w i h \<le> 500"
  by (simp add: destroyPoint_part0_def Let_def)

lemma destroyTerrain_part0_length:
  "length (destroyTerrain_part0 gs x y radius w) = length (terrain gs)"
  by (simp add: destroyTerrain_part0_def destroyTerrain_loop_length)

lemma destroyTerrain_part0_nth:
  "i < length (terrain gs) \<Longrightarrow>
   destroyTerrain_part0 gs x y radius w ! i = destroyPoint_part0 x y radius w i (terrain gs ! i)"
  by (simp add: destroyTerrain_part0_def destroyTerrain_loop_nth)

lemma destroyTerrain_arena_length:
  "length (destroyTerrain_arena gs x y radius w) = length (terrain gs)"
  by (simp add: destroyTerrain_arena_def destroyTerrain_loop_length)

lemma destroyTerrain_arena_nth:
  "i < length (terrain gs) \<Longrightarrow>
   destroyTerrain_arena gs x y radius w ! i = destroyPoint_arena x y radius w i (terrain gs ! i)"
  by (simp add: destroyTerrain_arena_def destroyTerrain_loop_nth)

lemma destroyTerrain_part0_monotone_bounded:
  assumes "i < length (terrain gs)" "terrain gs ! i \<le> 500"
  shows "terrain gs ! i \<le> destroyTerrain_part0 gs x y radius w ! i"
    and "destroyTerrain_part0 gs x y radius w ! i \<le> 500"
  using assms by (simp_all add: destroyTerrain_part0_nth destroyPoint_part0_lower destroyPoint_part0_upper)

lemma destroyPoint_arena_lower: "h \<le> destroyPoint_arena x y radius w i h"
proof (cases "terrainDistance x y i h < radius")
  case True
  from destructionAmount_arena_nonneg[OF terrainDistance_nonneg True]
  have "0 \<le> destructionAmount_arena x radius w (real i * 5) (terrainDistance x y i h)" .
  with True show ?thesis by (simp add: destroyPoint_arena_def Let_def)
next
  case False
  then show ?thesis by (simp add: destroyPoint_arena_def Let_def)
qed

text \<open>
  C1 (every sample after \<^verbatim>\<open>destroyTerrain\<close> is at least its value before, and at most 500).
  \<^verbatim>\<open>unnamed/part_000\<close> clamps with \<^verbatim>\<open>Math.min(..., 500)\<close> and keeps both bounds on every
  terrain whose samples are at most 500 (\<open>destroyTerrain_part0_monotone_bounded\<close>).
  \<^verbatim>\<open>GameArena.tsx\<close> has \<^verbatim>\<open>Math.max(..., 500)\<close> under the comment "Don't go below canvas":
  samples never decrease (\<open>destroyPoint_arena_lower\<close>), but the upper bound fails.  A drill
  (radius 60) that explodes at \<open>(500, 400)\<close> on flat ground of height 400 moves the sample
  under it from 400 to 580.
\<close>

theorem C1_arena_exceeds_floor:
  "terrain flatMatch ! 100 = 400 \<and>
   destroyTerrain_arena flatMatch 500 400 60 (Some ''drill'') ! 100 = 580"
  by (simp add: destroyTerrain_arena_nth destroyPoint_arena_def destructionAmount_arena_eq
      terrainDistance_def)

text \<open>
  C2 (a sample at distance \<open>d < radius\<close> is increased by \<open>(1 - d/radius) * radius * K\<close>, times
  4 for the drill and 2 more within 20 units, times 1.8 for the grenade; other samples are
  unchanged).  As stated this fails in \<^verbatim>\<open>unnamed/part_000\<close>, whose constants these are,
  wherever the clamp to 500 cuts the increase: under the drill above, the sample at distance 0
  would have to gain 1200 and gains 100.
\<close>

theorem C2_counterexample:
  "terrain flatMatch ! 100 = 400 \<and>
   terrainDistance 500 400 100 (terrain flatMatch ! 100) = 0 \<and>
   destroyTerrain_part0 flatMatch 500 400 60 (Some ''drill'') ! 100 = 500 \<and>
   500 \<noteq> terrain flatMatch ! 100 + (1 - 0 / 60) * 60 * 2.5 * 4 * 2"
  by (simp add: destroyTerrain_part0_nth destroyPoint_part0_def destructionAmount_part0_eq
      terrainDistance_def)

text \<open>
  C2, amended: in \<^verbatim>\<open>unnamed/part_000\<close> (\<open>K = 2.5\<close>) a sample \<open>h\<close> at distance \<open>d < radius\<close>
  becomes \<open>min (h + A) 500\<close>, where \<open>A\<close> is \<open>(1 - d/radius) * radius * 2.5\<close>, times 4 for the
  drill and times 2 more when the sample is less than 20 units from the centre
  horizontally, times 1.8 for the grenade; a sample at distance \<open>d \<ge> radius\<close> is unchanged,
  and the number of samples stays the same.
\<close>

theorem C2_destroyTerrain_part0_sample:
  assumes "i < length (terrain gs)"
  shows "length (destroyTerrain_part0 gs x y radius w) = length (terrain gs) \<and>
         destroyTerrain_part0 gs x y radius w ! i =
           (let h = terrain gs ! i;
                d = sqrt ((real i * 5 - x)\<^sup>2 + (h - y)\<^sup>2)
            in if d < radius
               then min (h + (1 - d / radius) * radius * 2.5
                              * (if w = Some ''drill''
                                 then 4 * (if \<bar>real i * 5 - x\<bar> < 20 then 2 else 1) else 1)
                              * (if w = Some ''grenade'' then 1.8 else 1)) 500
               else h)"
  using assms
  by (simp add: destroyTerrain_part0_length destroyTerrain_part0_nth destroyPoint_part0_def
      destructionAmount_part0_eq terrainDistance_def Let_def)

theorem C2_destroyTerrain_part0_sample_witness:
  "100 < length (terrain flatMatch) \<and>
   length (destroyTerrain_part0 flatMatch 500 400 30 (Some ''bazooka'')) = 200 \<and>
   destroyTerrain_part0 flatMatch 500 400 30 (Some ''bazooka'') ! 100 = 475"
  using C2_destroyTerrain_part0_sample [of 100 flatMatch 500 400 30 "Some ''bazooka''"]
  by simp

section \<open>Explosion damage\<close>

lemma applyDamage_length:
  "length (applyDamage gs ex ey D R) = length (characters gs)"
  by (simp add: applyDamage_def)

lemma applyDamage_nth:
  "i < length (characters gs) \<Longrightarrow>
   applyDamage gs ex ey D R ! i = damageCharacter ex ey D R (characters gs ! i)"
  by (simp add: applyDamage_def)

lemma falloff_damage_nonneg:
  fixes D R d :: real
  assumes "0 \<le> D" "0 \<le> d" "d < R"
  shows "0 \<le> \<lfloor>D * (1 - d / R)\<rfloor>"
proof -
  have "0 < R" using assms by linarith
  then have "d / R < 1" using assms by simp
  then have "0 \<le> D * (1 - d / R)" using assms by simp
  then show ?thesis by simp
qed

lemma falloff_damage_antimono:
  fixes D R d1 d2 :: real
  assumes "0 \<le> D" "d1 \<le> d2" "d2 < R" "0 \<le> d1"
  shows "\<lfloor>D * (1 - d2 / R)\<rfloor> \<le> \<lfloor>D * (1 - d1 / R)\<rfloor>"
proof -
  have "0 < R" using assms by linarith
  then have "d1 / R \<le> d2 / R" using assms by (simp add: divide_right_mono)
  then have "D * (1 - d2 / R) \<le> D * (1 - d1 / R)"
    using assms by (intro mult_left_mono) simp_all
  then show ?thesis by (rule floor_mono)
qed

lemma damageCharacter_health_le:
  assumes "0 \<le> D"
  shows "health (damageCharacter ex ey D R c) \<le> max 0 (health c)"
proof (cases "health c \<le> 0 \<or> \<not> sqrt ((char_x c - ex)\<^sup>2 + (char_y c - ey)\<^sup>2) < R")
  case True
  then show ?thesis by (auto simp: damageCharacter_def Let_def)
next
  case False
  then have "0 \<le> \<lfloor>D * (1 - sqrt ((char_x c - ex)\<^sup>2 + (char_y c - ey)\<^sup>2) / R)\<rfloor>"
    using assms by (intro falloff_damage_nonneg) simp_all
  then have "0 \<le> (of_int \<lfloor>D * (1 - sqrt ((char_x c - ex)\<^sup>2 + (char_y c - ey)\<^sup>2) / R)\<rfloor> :: real)"
    by simp
  with False show ?thesis by (simp add: damageCharacter_def Let_def)
qed

lemma damageCharacter_antimono:
  assumes D: "0 \<le> D" and h: "health a = health b"
    and d: "sqrt ((char_x a - ex)\<^sup>2 + (char_y a - ey)\<^sup>2)
            \<le> sqrt ((char_x b - ex)\<^sup>2 + (char_y b - ey)\<^sup>2)"
  shows "health (damageCharacter ex ey D R a) \<le> health (damageCharacter ex ey D R b)"
proof (cases "health a \<le> 0")
  case True
  then show ?thesis using h by (simp add: damageCharacter_def)
next
  case alive: False
  let ?da = "sqrt ((char_x a - ex)\<^sup>2 + (char_y a - ey)\<^sup>2)"
  let ?db = "sqrt ((char_x b - ex)\<^sup>2 + (char_y b - ey)\<^sup>2)"
  show ?thesis
  proof (cases "?db < R")
    case True
    then have a: "?da < R" using d by linarith
    have "\<lfloor>D * (1 - ?db / R)\<rfloor> \<le> \<lfloor>D * (1 - ?da / R)\<rfloor>"
      using D d True by (intro falloff_damage_antimono) simp_all
    then have "(of_int \<lfloor>D * (1 - ?db / R)\<rfloor> :: real) \<le> of_int \<lfloor>D * (1 - ?da / R)\<rfloor>"
      by simp
    then show ?thesis using alive h a True by (simp add: damageCharacter_def Let_def)
  next
    case False
    then have "health (damageCharacter ex ey D R b) = health b"
      by (simp add: damageCharacter_def Let_def)
    moreover have "health (damageCharacter ex ey D R a) \<le> max 0 (health a)"
      using D by (rule damageCharacter_health_le)
    ultimately show ?thesis using alive h by simp
  qed
qed

text \<open>
  C4 (a living character at the epicentre loses exactly \<open>D\<close> health, one at distance
  \<open>dist < R\<close> loses \<open>floor (D * (1 - dist/R))\<close>, one at distance \<open>\<ge> R\<close> or with health
  \<open>\<le> 0\<close> is unchanged).  As stated this fails where the health is smaller than the damage,
  because \<^verbatim>\<open>applyDamage\<close> stops at 0: a character with 10 health at the epicentre of a
  bazooka (damage 45, radius 30) ends at 0 and so loses 10.
\<close>

theorem C4_counterexample:
  "char_x (characters woundedMatch ! 0) = 150 \<and>
   char_y (characters woundedMatch ! 0) = 380 \<and>
   health (characters woundedMatch ! 0) = 10 \<and>
   health (applyDamage woundedMatch 150 380 45 30 ! 0) = 0 \<and>
   health (characters woundedMatch ! 0) - health (applyDamage woundedMatch 150 380 45 30 ! 0) \<noteq> 45"
  by (simp add: woundedMatch_def applyDamage_def flatMatch_characters initialCharacters_def
      newCharacter_def damageCharacter_def)

text \<open>
  C4, amended: \<^verbatim>\<open>applyDamage\<close> maps every character of the state it reads on its own, from
  that state alone.  A character with health \<open>\<le> 0\<close> or at distance \<open>dist \<ge> R\<close> is
  unchanged; a living one at \<open>dist < R\<close> gets health
  \<open>max 0 (health - floor (D * (1 - dist/R)))\<close>, which at the epicentre is
  \<open>max 0 (health - floor D)\<close>; and for \<open>D \<ge> 0\<close>, of two characters with the same health the
  nearer one is left with no more health than the farther one.
\<close>

theorem C4_applyDamage:
  assumes "i < length (characters gs)" and "0 \<le> D" and "health a = health b"
    and "sqrt ((char_x a - ex)\<^sup>2 + (char_y a - ey)\<^sup>2)
         \<le> sqrt ((char_x b - ex)\<^sup>2 + (char_y b - ey)\<^sup>2)"
  shows "(let c = characters gs ! i;
              c' = applyDamage gs ex ey D R ! i;
              dist = sqrt ((char_x c - ex)\<^sup>2 + (char_y c - ey)\<^sup>2)
          in length (applyDamage gs ex ey D R) = length (characters gs) \<and>
             c' = (if health c \<le> 0 \<or> R \<le> dist then c
                   else c\<lparr>health := max 0 (health c - of_int \<lfloor>D * (1 - dist / R)\<rfloor>)\<rparr>) \<and>
             (0 < health c \<and> char_x c = ex \<and> char_y c = ey \<and> 0 < R \<longrightarrow>
                health c' = max 0 (health c - of_int \<lfloor>D\<rfloor>))) \<and>
         health (damageCharacter ex ey D R a) \<le> health (damageCharacter ex ey D R b)"
proof -
  have "health (damageCharacter ex ey D R a) \<le> health (damageCharacter ex ey D R b)"
    using assms(2-4) by (rule damageCharacter_antimono)
  then show ?thesis
    using assms(1) by (auto simp: Let_def applyDamage_def damageCharacter_def)
qed

theorem C4_applyDamage_witness:
  "health (applyDamage flatMatch 150 380 45 30 ! 0) = 55 \<and>
   health (applyDamage flatMatch 150 380 45 30 ! 1) = 100"
proof -
  have d: "sqrt ((char_x (characters flatMatch ! 0) - 150)\<^sup>2 + (char_y (characters flatMatch ! 0) - 380)\<^sup>2)
         \<le> sqrt ((char_x (characters flatMatch ! 1) - 150)\<^sup>2 + (char_y (characters flatMatch ! 1) - 380)\<^sup>2)"
    by (simp add: newCharacter_def)
  have h: "health (characters flatMatch ! 0) = health (characters flatMatch ! 1)"
    by (simp add: newCharacter_def)
  have i0: "0 < length (characters flatMatch)" and i1: "1 < length (characters flatMatch)"
    by simp_all
  show ?thesis
    using C4_applyDamage [OF i0 _ h d, of 45 30] C4_applyDamage [OF i1 _ h d, of 45 30]
    by (simp add: Let_def newCharacter_def)
qed


section \<open>Gravity\<close>

lemma updateCharacterGravity_nth:
  "i < length chars \<Longrightarrow>
   updateCharacterGravity chars terr ! i = gravityCharacter terr (chars ! i)"
  by (simp add: updateCharacterGravity_def)

lemma fallDamage_bounds: "0 \<le> fallDamage fd \<and> fallDamage fd \<le> 80"
  by (simp add: fallDamage_def)

lemma fallDamage_60: "fallDamage 60 = 1"
  by (simp add: fallDamage_def)

lemma fallDamage_cap: "850 \<le> fd \<Longrightarrow> fallDamage fd = 80"
proof -
  assume "850 \<le> fd"
  then have "80 \<le> (fd - 50) / 10" by simp
  then have "80 \<le> \<lfloor>(fd - 50) / 10\<rfloor>" by (simp add: le_floor_iff)
  then show ?thesis using \<open>850 \<le> fd\<close> by (simp add: fallDamage_def)
qed

text \<open>
  C5: when a living character in the air reaches the ground level in a tick of
  \<^verbatim>\<open>updateCharacterGravity\<close>, with \<open>fd\<close> the fall distance accumulated up to and including
  this tick, it takes no damage if \<open>fd \<le> 50\<close> and \<open>min (floor ((fd - 50) / 10)) 80\<close> otherwise
  (health stops at 0); a fall of 60 costs 1 health, a fall of 850 or more does 80 damage;
  and the character is put at ground level with \<open>vy = 0\<close>, grounded, and a fall distance
  of 0.
\<close>

theorem C5_landing:
  assumes "i < length chars" and "0 < health (chars ! i)"
    and "char_y (chars ! i) < getTerrainHeight (char_x (chars ! i)) terr - 20"
    and "getTerrainHeight (char_x (chars ! i)) terr - 20
         \<le> char_y (chars ! i) + (char_vy (chars ! i) + 0.8)"
  shows "(let c = chars ! i;
              c' = updateCharacterGravity chars terr ! i;
              groundLevel = getTerrainHeight (char_x c) terr - 20;
              fd = fallDistance c + \<bar>char_vy c + 0.8\<bar>;
              dmg = (if fd \<le> 50 then 0 else min \<lfloor>(fd - 50) / 10\<rfloor> 80)
          in c' = c\<lparr>char_y := groundLevel, char_vy := 0, isGrounded := True,
                    fallDistance := 0, health := max 0 (health c - of_int dmg)\<rparr> \<and>
             (fd \<le> 50 \<longrightarrow> health c' = health c) \<and>
             (fd = 60 \<and> 1 \<le> health c \<longrightarrow> health c' = health c - 1) \<and>
             (850 \<le> fd \<longrightarrow> dmg = 80 \<and> health c' = max 0 (health c - 80)))"
proof -
  let ?c = "chars ! i"
  let ?fd = "fallDistance ?c + \<bar>char_vy ?c + 0.8\<bar>"
  have dmg: "(if ?fd \<le> 50 then 0 else min \<lfloor>(?fd - 50) / 10\<rfloor> 80) = fallDamage ?fd"
    by (simp add: fallDamage_def)
  have land: "gravityCharacter terr ?c =
      ?c\<lparr>char_y := getTerrainHeight (char_x ?c) terr - 20, char_vy := 0, isGrounded := True,
          fallDistance := 0, health := max 0 (health ?c - of_int (fallDamage ?fd))\<rparr>"
    using assms(2-4) by (simp add: gravityCharacter_def Let_def)
  have h: "health (gravityCharacter terr ?c) = max 0 (health ?c - of_int (fallDamage ?fd))"
    by (simp add: land)
  have a: "?fd \<le> 50 \<longrightarrow> health (gravityCharacter terr ?c) = health ?c"
    using assms(2) by (simp add: h fallDamage_def)
  have b: "?fd = 60 \<and> 1 \<le> health ?c \<longrightarrow> health (gravityCharacter terr ?c) = health ?c - 1"
    by (simp add: h fallDamage_60)
  have c: "850 \<le> ?fd \<longrightarrow> fallDamage ?fd = 80 \<and>
      health (gravityCharacter terr ?c) = max 0 (health ?c - 80)"
    by (simp add: h fallDamage_cap)
  show ?thesis
    unfolding Let_def dmg updateCharacterGravity_nth[OF assms(1)]
    using land a b c by simp
qed

theorem C5_landing_witness:
  "health (updateCharacterGravity (characters fallingMatch) (terrain fallingMatch) ! 0) = 99 \<and>
   char_y (updateCharacterGravity (characters fallingMatch) (terrain fallingMatch) ! 0) = 380 \<and>
   isGrounded (updateCharacterGravity (characters fallingMatch) (terrain fallingMatch) ! 0) \<and>
   health (updateCharacterGravity (characters longFallMatch) (terrain longFallMatch) ! 0) = 20"
proof -
  have f: "characters fallingMatch ! 0 =
      (newCharacter ''v1'' vegan 150 ''Kale'' flatTerrain)
        \<lparr>char_y := 375, char_vy := 9.2, isGrounded := False, fallDistance := 50\<rparr>"
    "length (characters fallingMatch) = 6" "terrain fallingMatch = flatTerrain"
    by (simp_all add: fallingMatch_def)
  have l: "characters longFallMatch ! 0 =
      (newCharacter ''v1'' vegan 150 ''Kale'' flatTerrain)
        \<lparr>char_y := 375, char_vy := 9.2, isGrounded := False, fallDistance := 840\<rparr>"
    "length (characters longFallMatch) = 6" "terrain longFallMatch = flatTerrain"
    by (simp_all add: longFallMatch_def)
  show ?thesis
    using C5_landing [of 0 "characters fallingMatch" "terrain fallingMatch"]
      C5_landing [of 0 "characters longFallMatch" "terrain longFallMatch"]
    by (simp add: f l newCharacter_def Let_def)
qed

section \<open>Commands\<close>

text \<open>
  C8: a move outside the movement phase or with \<open>movementLeft \<le> 0\<close>, a jump outside the
  movement phase, after a jump or off the ground, and a fire outside the aiming phase
  return before any state update: the state stays as it was, no timer is registered,
  and nothing is reported.
\<close>

theorem C8_invalid_commands_ignored:
  "(gamePhase gs \<noteq> movement \<or> movementLeft (characters gs ! currentPlayer gs) \<le> 0
      \<longrightarrow> moveCharacter dir gs prev = prev) \<and>
   (gamePhase gs \<noteq> movement \<or> hasJumped (characters gs ! currentPlayer gs)
      \<or> \<not> isGrounded (characters gs ! currentPlayer gs)
      \<longrightarrow> jumpCharacter gs prev = prev) \<and>
   (gamePhase gs \<noteq> aiming
      \<longrightarrow> fireWeapon_arena gs prev = (prev, []) \<and> fireWeapon_part0 rnd gs prev = (prev, []))"
  by (auto simp: moveCharacter_def jumpCharacter_def fireWeapon_arena_def fireWeapon_part0_def
      Let_def)

theorem C8_invalid_commands_ignored_witness:
  "moveCharacter left (flatMatch\<lparr>gamePhase := firing\<rparr>) flatMatch = flatMatch \<and>
   jumpCharacter (flatMatch\<lparr>gamePhase := firing\<rparr>) flatMatch = flatMatch \<and>
   fireWeapon_arena (flatMatch\<lparr>gamePhase := firing\<rparr>) flatMatch = (flatMatch, []) \<and>
   fireWeapon_part0 (\<lambda>k. 1/2) (flatMatch\<lparr>gamePhase := firing\<rparr>) flatMatch = (flatMatch, [])"
  using C8_invalid_commands_ignored
    [of "flatMatch\<lparr>gamePhase := firing\<rparr>" left flatMatch "\<lambda>k. 1/2"]
  by simp

text \<open>
  C10: an accepted move (movement phase, \<open>movementLeft > 0\<close>) takes exactly 1 off
  \<open>movementLeft\<close> and puts the character at the clamped position; at \<open>x = 20\<close> moving
  left and at \<open>x = 980\<close> moving right the position stays and the point is spent all the same.
\<close>

theorem C10_blocked_move_costs_a_point:
  assumes "currentPlayer s < length (characters s)"
    and "gamePhase s = movement"
    and "0 < movementLeft (characters s ! currentPlayer s)"
  shows "(let c = characters s ! currentPlayer s;
              c' = characters (moveCharacter dir s s) ! currentPlayer s
          in movementLeft c' = movementLeft c - 1 \<and>
             char_x c' = (case dir of left \<Rightarrow> max 20 (char_x c - 5)
                          | right \<Rightarrow> min 980 (char_x c + 5)) \<and>
             ((dir = left \<and> char_x c = 20) \<or> (dir = right \<and> char_x c = 980)
                \<longrightarrow> char_x c' = char_x c))"
  using assms by (auto simp: moveCharacter_def Let_def split: direction.splits)

theorem C10_blocked_move_costs_a_point_witness:
  "char_x (characters leftEdgeMatch ! 0) = 20 \<and>
   movementLeft (characters leftEdgeMatch ! 0) = 60 \<and>
   char_x (characters (moveCharacter left leftEdgeMatch leftEdgeMatch) ! 0) = 20 \<and>
   movementLeft (characters (moveCharacter left leftEdgeMatch leftEdgeMatch) ! 0) = 59"
proof -
  have f: "characters leftEdgeMatch ! 0 =
      (newCharacter ''v1'' vegan 150 ''Kale'' flatTerrain)\<lparr>char_x := 20\<rparr>"
    "length (characters leftEdgeMatch) = 6" "currentPlayer leftEdgeMatch = 0"
    "gamePhase leftEdgeMatch = movement"
    by (simp_all add: leftEdgeMatch_def)
  show ?thesis
    using C10_blocked_move_costs_a_point [of leftEdgeMatch left]
    by (simp add: f newCharacter_def Let_def)
qed

section \<open>Health invariant\<close>

lemma damageCharacter_healthInRange:
  assumes "0 \<le> D" "healthInRange c"
  shows "healthInRange (damageCharacter ex ey D R c)"
proof -
  have le: "health (damageCharacter ex ey D R c) \<le> max 0 (health c)"
    using assms(1) by (rule damageCharacter_health_le)
  have ge: "0 \<le> health (damageCharacter ex ey D R c)"
    using assms(2) by (simp add: damageCharacter_def healthInRange_def Let_def)
  have mx: "maxHealth (damageCharacter ex ey D R c) = maxHealth c"
    by (simp add: damageCharacter_def Let_def)
  show ?thesis using le ge mx assms(2) by (simp add: healthInRange_def)
qed

lemma gravityCharacter_healthInRange:
  assumes "healthInRange c"
  shows "healthInRange (gravityCharacter terr c)"
proof -
  define r :: real where "r = of_int (fallDamage (fallDistance c + \<bar>char_vy c + 0.8\<bar>))"
  have r: "0 \<le> r"
    unfolding r_def using fallDamage_bounds[of "fallDistance c + \<bar>char_vy c + 0.8\<bar>"] by simp
  have h: "health (gravityCharacter terr c) = health c \<or>
           health (gravityCharacter terr c) = max 0 (health c - r)"
    by (simp add: gravityCharacter_def Let_def r_def)
  have m: "maxHealth (gravityCharacter terr c) = maxHealth c"
    by (simp add: gravityCharacter_def Let_def)
  have c: "0 \<le> health c" "health c \<le> maxHealth c"
    using assms by (simp_all add: healthInRange_def)
  from h show ?thesis
  proof
    assume "health (gravityCharacter terr c) = health c"
    then show ?thesis using c m by (simp add: healthInRange_def)
  next
    assume e: "health (gravityCharacter terr c) = max 0 (health c - r)"
    have "0 \<le> max 0 (health c - r)" "max 0 (health c - r) \<le> maxHealth c"
      using r c by linarith+
    then show ?thesis using e m by (simp add: healthInRange_def)
  qed
qed

lemma applyDamage_healthInRange:
  "0 \<le> D \<Longrightarrow> list_all healthInRange (characters gs) \<Longrightarrow>
   list_all healthInRange (applyDamage gs ex ey D R)"
  by (simp add: applyDamage_def list_all_iff damageCharacter_healthInRange)

lemma updateCharacterGravity_healthInRange:
  "list_all healthInRange chars \<Longrightarrow> list_all healthInRange (updateCharacterGravity chars terr)"
  by (simp add: updateCharacterGravity_def list_all_iff gravityCharacter_healthInRange)

lemma weapon_damage_nonneg: "w \<in> set (VEGAN_WEAPONS @ MEAT_WEAPONS) \<Longrightarrow> 0 \<le> weapon_damage w"
  by (auto simp: VEGAN_WEAPONS_def MEAT_WEAPONS_def)

lemma damageOf_nonneg:
  assumes "0 \<le> dflt"
  shows "0 \<le> damageOf dflt (findWeapon t)"
proof (cases "findWeapon t")
  case None
  then show ?thesis using assms by (simp add: damageOf_def)
next
  case (Some w)
  then have "w \<in> set (VEGAN_WEAPONS @ MEAT_WEAPONS)"
    unfolding findWeapon_def find_Some_iff by (metis nth_mem)
  then have "0 \<le> weapon_damage w" by (rule weapon_damage_nonneg)
  then show ?thesis using Some assms by (simp add: damageOf_def)
qed

lemma mapProjectiles_acc_inv:
  assumes step: "\<And>p acc. P acc \<Longrightarrow> P (snd (f p acc))" and "P acc"
  shows "P (snd (mapProjectiles f ps acc))"
  using assms(2)
proof (induction ps arbitrary: acc)
  case Nil
  then show ?case by simp
next
  case (Cons p ps)
  have "P (snd (f p acc))" using Cons.prems by (rule step)
  then have "P (snd (mapProjectiles f ps (snd (f p acc))))" by (rule Cons.IH)
  then show ?case by (simp add: split_beta Let_def)
qed

lemma standardStep_healthInRange:
  assumes "list_all healthInRange (characters gs)" "list_all healthInRange (snd acc)"
  shows "list_all healthInRange (snd (snd (standardStep destroy gs prev p acc)))"
  using assms
  by (simp add: standardStep_def Let_def split_beta applyDamage_healthInRange damageOf_nonneg)

lemma stepProjectile_arena_healthInRange:
  assumes "list_all healthInRange (characters gs)" "list_all healthInRange (snd acc)"
  shows "list_all healthInRange (snd (snd (stepProjectile_arena gs prev p acc)))"
  using assms
  by (simp add: stepProjectile_arena_def Let_def standardStep_healthInRange
      applyDamage_healthInRange damageOf_nonneg)

lemma stepProjectile_part0_healthInRange:
  assumes "list_all healthInRange (characters gs)" "list_all healthInRange (snd acc)"
  shows "list_all healthInRange (snd (snd (stepProjectile_part0 gs prev p acc)))"
  using assms
  by (simp add: stepProjectile_part0_def Let_def standardStep_healthInRange
      applyDamage_healthInRange damageOf_nonneg)

lemma updateProjectilesWith_healthInRange:
  assumes step: "\<And>p acc. list_all healthInRange (snd acc) \<Longrightarrow>
                   list_all healthInRange (snd (snd (f p acc)))"
    and "list_all healthInRange (characters prev)"
  shows "list_all healthInRange (characters (updateProjectilesWith f prev))"
proof -
  have "list_all healthInRange
          (snd (snd (mapProjectiles f (projectiles prev) (terrain prev, characters prev))))"
    by (rule mapProjectiles_acc_inv[where P = "\<lambda>acc. list_all healthInRange (snd acc)"])
       (simp_all add: step assms(2))
  then show ?thesis
    by (simp add: updateProjectilesWith_def split_beta Let_def
        updateCharacterGravity_healthInRange)
qed

lemma initialCharacters_healthInRange: "list_all healthInRange (initialCharacters terrainPoints)"
  by (simp add: initialCharacters_def newCharacter_def healthInRange_def)

text \<open>
  C9: \<open>0 \<le> health \<le> maxHealth\<close> holds for the six characters of a new match and is kept
  by \<^verbatim>\<open>applyDamage\<close> (for a damage \<open>D \<ge> 0\<close>, as all damages of the weapon tables and the
  defaults are), by \<^verbatim>\<open>updateCharacterGravity\<close> (fall damage), and by a whole
  \<^verbatim>\<open>updateProjectiles\<close> of either file (impacts, grenade fuse explosions and the gravity
  step at its end), whatever the projectiles are.
\<close>

theorem C9_health_in_range:
  assumes "list_all healthInRange (characters gs)"
    and "list_all healthInRange (characters prev)"
    and "0 \<le> D"
  shows "list_all healthInRange (applyDamage gs ex ey D R) \<and>
         list_all healthInRange (updateCharacterGravity (characters prev) terr) \<and>
         list_all healthInRange (characters (updateProjectiles_arena gs prev)) \<and>
         list_all healthInRange (characters (updateProjectiles_part0 gs prev)) \<and>
         list_all healthInRange (initialCharacters terrainPoints)"
proof -
  have a: "list_all healthInRange (characters (updateProjectiles_arena gs prev))"
    unfolding updateProjectiles_arena_def
    by (rule updateProjectilesWith_healthInRange)
       (simp_all add: stepProjectile_arena_healthInRange assms)
  have b: "list_all healthInRange (characters (updateProjectiles_part0 gs prev))"
    unfolding updateProjectiles_part0_def
    by (rule updateProjectilesWith_healthInRange)
       (simp_all add: stepProjectile_part0_healthInRange assms)
  show ?thesis
    using a b assms
    by (simp add: applyDamage_healthInRange updateCharacterGravity_healthInRange
        initialCharacters_healthInRange)
qed

theorem C9_health_in_range_witness:
  "list_all healthInRange (characters woundedMatch) \<and>
   list_all healthInRange (applyDamage woundedMatch 150 380 45 30) \<and>
   list_all healthInRange (updateCharacterGravity (characters woundedMatch) flatTerrain) \<and>
   list_all healthInRange (characters (updateProjectiles_arena woundedMatch woundedMatch)) \<and>
   list_all healthInRange (characters (updateProjectiles_part0 woundedMatch woundedMatch))"
proof -
  have h: "list_all healthInRange (characters woundedMatch)"
    by (simp add: woundedMatch_def flatMatch_characters initialCharacters_def newCharacter_def
        healthInRange_def)
  have D: "(0::real) \<le> 45" by simp
  show ?thesis
    using h C9_health_in_range [OF h h D, of 150 380 30 flatTerrain]
    by simp
qed

section \<open>Turn switch\<close>

lemma nextAlive_finds:
  assumes "i < length chars"
    and "\<forall>e<d. health (chars ! ((i + e) mod length chars)) \<le> 0"
    and "0 < health (chars ! ((i + d) mod length chars))"
  shows "nextAlive chars i = Some ((i + d) mod length chars)"
  using assms
proof (induction d arbitrary: i)
  case 0
  then show ?case by (subst nextAlive.simps) simp
next
  case (Suc d)
  let ?n = "length chars"
  let ?i' = "Suc i mod ?n"
  have n: "0 < ?n" using Suc.prems(1) by linarith
  have dead: "health (chars ! i) \<le> 0"
    using Suc.prems(1) Suc.prems(2)[rule_format, of 0] by simp
  have shift: "(?i' + e) mod ?n = (i + Suc e) mod ?n" for e
    by (simp add: mod_add_left_eq)
  have "nextAlive chars i = nextAlive chars ?i'"
    using Suc.prems(1) dead by (subst nextAlive.simps) simp
  also have "\<dots> = Some ((?i' + d) mod ?n)"
  proof (rule Suc.IH)
    show "?i' < ?n" using n by simp
    show "\<forall>e<d. health (chars ! ((?i' + e) mod ?n)) \<le> 0"
    proof (intro allI impI)
      fix e assume "e < d"
      then have "Suc e < Suc d" by simp
      from Suc.prems(2)[rule_format, OF this]
      show "health (chars ! ((?i' + e) mod ?n)) \<le> 0" unfolding shift .
    qed
    show "0 < health (chars ! ((?i' + d) mod ?n))"
      using Suc.prems(3) unfolding shift .
  qed
  finally show ?case unfolding shift .
qed

lemma first_alive_exists:
  assumes "j < length chars" "0 < health (chars ! j)" "i < length chars"
  shows "\<exists>d<length chars. (\<forall>e<d. health (chars ! ((i + e) mod length chars)) \<le> 0) \<and>
           0 < health (chars ! ((i + d) mod length chars))"
proof -
  let ?n = "length chars"
  let ?P = "\<lambda>d. 0 < health (chars ! ((i + d) mod ?n))"
  let ?d0 = "(j + (?n - i)) mod ?n"
  have n: "0 < ?n" using assms(1) by linarith
  have "(i + ?d0) mod ?n = (i + (j + (?n - i))) mod ?n"
    by (simp add: mod_add_right_eq)
  also have "i + (j + (?n - i)) = j + ?n"
    using assms(3) by simp
  finally have "(i + ?d0) mod ?n = j" using assms(1) by simp
  then have P0: "?P ?d0" using assms(2) by simp
  define d where "d = (LEAST d. ?P d)"
  have Pd: "?P d" unfolding d_def using P0 by (rule LeastI)
  have "d \<le> ?d0" unfolding d_def using P0 by (rule Least_le)
  moreover have "?d0 < ?n" using n by simp
  ultimately have dn: "d < ?n" by linarith
  have "\<not> ?P e" if "e < d" for e
    using that unfolding d_def by (rule not_less_Least)
  then have "\<forall>e<d. health (chars ! ((i + e) mod ?n)) \<le> 0"
    by (auto simp: not_less)
  with Pd dn show ?thesis by blast
qed

text \<open>
  C7: the callback of the turn timer.  With no living vegan the phase becomes \<open>gameOver\<close>
  and \<open>currentTeam\<close>, which the game-over screen shows as the winner, becomes
  \<open>meatLover\<close>; with a living vegan and no living meat lover it becomes \<open>gameOver\<close> with
  \<open>vegan\<close>.  Otherwise the loop returns, \<open>currentPlayer\<close> becomes the first index after
  the current one, cyclically, whose character has \<open>health > 0\<close>, \<open>currentTeam\<close> that
  character's team, every character (so this one too) gets \<open>movementLeft = 60\<close> and
  \<open>hasJumped = False\<close>, the wind is drawn anew and the phase is \<open>movement\<close>.
\<close>

theorem C7_switchTurn:
  "(let chars = characters prev;
        n = length chars;
        aliveCharacters = filter (\<lambda>c. health c > 0) chars;
        aliveVegans = filter (\<lambda>c. char_team c = vegan) aliveCharacters;
        aliveMeatLovers = filter (\<lambda>c. char_team c = meatLover) aliveCharacters
    in (aliveVegans = [] \<longrightarrow>
          switchTurn r prev = Some (prev\<lparr>gamePhase := gameOver, currentTeam := meatLover\<rparr>)) \<and>
       (aliveVegans \<noteq> [] \<and> aliveMeatLovers = [] \<longrightarrow>
          switchTurn r prev = Some (prev\<lparr>gamePhase := gameOver, currentTeam := vegan\<rparr>)) \<and>
       (aliveVegans \<noteq> [] \<and> aliveMeatLovers \<noteq> [] \<longrightarrow>
          (\<exists>d. 1 \<le> d \<and> d \<le> n \<and>
               (\<forall>e. 1 \<le> e \<and> e < d \<longrightarrow> health (chars ! ((currentPlayer prev + e) mod n)) \<le> 0) \<and>
               0 < health (chars ! ((currentPlayer prev + d) mod n)) \<and>
               switchTurn r prev =
                 Some (prev\<lparr>currentPlayer := (currentPlayer prev + d) mod n,
                            currentTeam := char_team (chars ! ((currentPlayer prev + d) mod n)),
                            gamePhase := movement,
                            turnTimeLeft := 30,
                            wind := r * 20 - 10,
                            characters :=
                              map (\<lambda>char. char\<lparr>movementLeft := 60, hasJumped := False\<rparr>) chars\<rparr>))))"
proof -
  let ?chars = "characters prev"
  let ?n = "length ?chars"
  let ?av = "filter (\<lambda>c. char_team c = vegan) (filter (\<lambda>c. health c > 0) ?chars)"
  let ?am = "filter (\<lambda>c. char_team c = meatLover) (filter (\<lambda>c. health c > 0) ?chars)"
  have both: "\<exists>d. 1 \<le> d \<and> d \<le> ?n \<and>
               (\<forall>e. 1 \<le> e \<and> e < d \<longrightarrow> health (?chars ! ((currentPlayer prev + e) mod ?n)) \<le> 0) \<and>
               0 < health (?chars ! ((currentPlayer prev + d) mod ?n)) \<and>
               switchTurn r prev =
                 Some (prev\<lparr>currentPlayer := (currentPlayer prev + d) mod ?n,
                            currentTeam := char_team (?chars ! ((currentPlayer prev + d) mod ?n)),
                            gamePhase := movement,
                            turnTimeLeft := 30,
                            wind := r * 20 - 10,
                            characters :=
                              map (\<lambda>char. char\<lparr>movementLeft := 60, hasJumped := False\<rparr>) ?chars\<rparr>)"
    if v: "?av \<noteq> []" and m: "?am \<noteq> []"
  proof -
    have "\<exists>c. c \<in> set ?av" using v by (metis ex_in_conv set_empty)
    then obtain c where "c \<in> set ?av" ..
    then have "c \<in> set ?chars" "0 < health c" by auto
    then obtain j where j: "j < ?n" "0 < health (?chars ! j)"
      by (auto simp: in_set_conv_nth)
    have n: "0 < ?n" using j(1) by linarith
    let ?i = "Suc (currentPlayer prev) mod ?n"
    have i: "?i < ?n" using n by simp
    from first_alive_exists[OF j i]
    obtain d where d: "d < ?n"
      "\<forall>e<d. health (?chars ! ((?i + e) mod ?n)) \<le> 0"
      "0 < health (?chars ! ((?i + d) mod ?n))"
      by blast
    have shift: "(?i + e) mod ?n = (currentPlayer prev + Suc e) mod ?n" for e
      by (simp add: mod_add_left_eq)
    have na: "nextAlive ?chars ?i = Some ((currentPlayer prev + Suc d) mod ?n)"
      using nextAlive_finds[OF i d(2) d(3)] unfolding shift .
    have dead: "\<forall>e. 1 \<le> e \<and> e < Suc d \<longrightarrow>
                  health (?chars ! ((currentPlayer prev + e) mod ?n)) \<le> 0"
    proof (intro allI impI)
      fix e assume e: "1 \<le> e \<and> e < Suc d"
      then obtain e' where e': "e = Suc e'" "e' < d" by (cases e) auto
      from d(2)[rule_format, OF e'(2)]
      show "health (?chars ! ((currentPlayer prev + e) mod ?n)) \<le> 0"
        unfolding shift e'(1) .
    qed
    have alive: "0 < health (?chars ! ((currentPlayer prev + Suc d) mod ?n))"
      using d(3) unfolding shift .
    have sw: "switchTurn r prev =
        Some (prev\<lparr>currentPlayer := (currentPlayer prev + Suc d) mod ?n,
                   currentTeam := char_team (?chars ! ((currentPlayer prev + Suc d) mod ?n)),
                   gamePhase := movement,
                   turnTimeLeft := 30,
                   wind := r * 20 - 10,
                   characters :=
                     map (\<lambda>char. char\<lparr>movementLeft := 60, hasJumped := False\<rparr>) ?chars\<rparr>)"
      using v m na by (simp add: switchTurn_def Let_def)
    show ?thesis
      by (rule exI[of _ "Suc d"]) (use d(1) dead alive sw in simp)
  qed
  have a: "?av = [] \<longrightarrow>
        switchTurn r prev = Some (prev\<lparr>gamePhase := gameOver, currentTeam := meatLover\<rparr>)"
    by (simp add: switchTurn_def Let_def)
  have b: "?av \<noteq> [] \<and> ?am = [] \<longrightarrow>
        switchTurn r prev = Some (prev\<lparr>gamePhase := gameOver, currentTeam := vegan\<rparr>)"
    by (simp add: switchTurn_def Let_def)
  show ?thesis
    unfolding Let_def using a b both by blast
qed

lemma example_characters:
  "characters duelMatch =
     map (\<lambda>c. if char_id c = ''v1'' \<or> char_id c = ''m2'' then c else c\<lparr>health := 0\<rparr>)
         (initialCharacters flatTerrain)"
  "characters veganWinMatch =
     map (\<lambda>c. if char_id c = ''v1'' then c else c\<lparr>health := 0\<rparr>) (initialCharacters flatTerrain)"
  "characters meatWinMatch =
     map (\<lambda>c. if char_id c = ''m2'' then c else c\<lparr>health := 0\<rparr>) (initialCharacters flatTerrain)"
  "currentPlayer duelMatch = 0"
  by (simp_all add: duelMatch_def veganWinMatch_def meatWinMatch_def flatMatch_characters)

theorem C7_switchTurn_witness:
  "switchTurn (1/2) meatWinMatch = Some (meatWinMatch\<lparr>gamePhase := gameOver, currentTeam := meatLover\<rparr>) \<and>
   switchTurn (1/2) veganWinMatch = Some (veganWinMatch\<lparr>gamePhase := gameOver, currentTeam := vegan\<rparr>) \<and>
   switchTurn (1/2) duelMatch =
     Some (duelMatch\<lparr>currentPlayer := 4, currentTeam := meatLover, gamePhase := movement,
                    turnTimeLeft := 30, wind := 0,
                    characters := map (\<lambda>char. char\<lparr>movementLeft := 60, hasJumped := False\<rparr>)
                                      (characters duelMatch)\<rparr>)"
proof -
  have m: "switchTurn (1/2) meatWinMatch =
      Some (meatWinMatch\<lparr>gamePhase := gameOver, currentTeam := meatLover\<rparr>)"
    using C7_switchTurn [of meatWinMatch "1/2"]
    by (simp add: Let_def example_characters initialCharacters_def newCharacter_def)
  have v: "switchTurn (1/2) veganWinMatch =
      Some (veganWinMatch\<lparr>gamePhase := gameOver, currentTeam := vegan\<rparr>)"
    using C7_switchTurn [of veganWinMatch "1/2"]
    by (simp add: Let_def example_characters initialCharacters_def newCharacter_def)
  let ?chars = "characters duelMatch"
  have hs: "map health ?chars = [100, 0, 0, 0, 100, 0]"
    "map char_team ?chars = [vegan, vegan, vegan, meatLover, meatLover, meatLover]"
    by (simp_all add: example_characters initialCharacters_def newCharacter_def)
  have len: "length ?chars = 6"
    by (simp add: example_characters initialCharacters_def)
  have nth: "health (?chars ! k) = [100, 0, 0, 0, 100, 0] ! k"
    "char_team (?chars ! k) = [vegan, vegan, vegan, meatLover, meatLover, meatLover] ! k"
    if "k < 6" for k
    using that len by (simp_all add: hs[symmetric])
  from C7_switchTurn [of duelMatch "1/2"]
  obtain d where d: "1 \<le> d" "d \<le> 6"
    "\<forall>e. 1 \<le> e \<and> e < d \<longrightarrow> health (?chars ! (e mod 6)) \<le> 0"
    "0 < health (?chars ! (d mod 6))"
    "switchTurn (1/2) duelMatch =
       Some (duelMatch\<lparr>currentPlayer := d mod 6,
                      currentTeam := char_team (?chars ! (d mod 6)),
                      gamePhase := movement, turnTimeLeft := 30, wind := 1/2 * 20 - 10,
                      characters := map (\<lambda>char. char\<lparr>movementLeft := 60, hasJumped := False\<rparr>)
                                        ?chars\<rparr>)"
    by (auto simp: Let_def example_characters(4) len
        example_characters(1) initialCharacters_def newCharacter_def)
  have "d \<in> {1, 2, 3, 4, 5, 6}" using d(1,2) by auto
  then have "d = 4"
    using d(4) d(3)[rule_format, of 4] by (auto simp: nth)
  then show ?thesis using m v d(5) by (simp add: nth)
qed

section \<open>Grenade fuse\<close>

lemma grenadePhysics_fields [simp]:
  "proj_type (grenadePhysics w terr p) = proj_type p"
  "active (grenadePhysics w terr p) = active p"
  "fuseTime (grenadePhysics w terr p) = fuseTime p"
  by (simp_all add: grenadePhysics_def Let_def split_beta)

lemma grenadeAdvance_fields [simp]:
  "proj_type (grenadeAdvance w terr p) = proj_type p"
  "active (grenadeAdvance w terr p) = active p"
  "fuseTime (grenadeAdvance w terr p) = fuseTime p - 1"
  by (simp_all add: grenadeAdvance_def)

lemma grenadeFlight_fields [simp]:
  "proj_type (grenadeFlight w terr k p) = proj_type p"
  "active (grenadeFlight w terr k p) = active p"
  "fuseTime (grenadeFlight w terr k p) = fuseTime p - int k"
  by (induction k) simp_all

lemma findWeapon_grenade:
  "explosionRadiusOf d1 (findWeapon ''grenade'') = 35"
  "damageOf d2 (findWeapon ''grenade'') = 50"
  by (simp_all add: findWeapon_def VEGAN_WEAPONS_def explosionRadiusOf_def damageOf_def)

lemma updateProjectilesWith_single:
  assumes "projectiles prev = [p]"
  shows "updateProjectilesWith f prev =
           prev\<lparr>projectiles := filter active [fst (f p (terrain prev, characters prev))],
                terrain := fst (snd (f p (terrain prev, characters prev))),
                characters := updateCharacterGravity
                                (snd (snd (f p (terrain prev, characters prev))))
                                (fst (snd (f p (terrain prev, characters prev))))\<rparr>"
  using assms by (simp add: updateProjectilesWith_def split_beta Let_def)

lemma tick_arena_fly:
  assumes "projectiles s = [g]" "proj_type g = ''grenade''" "active g" "1 < fuseTime g"
  shows "tick_arena s =
           s\<lparr>projectiles := [grenadeAdvance (wind s) (terrain s) g],
             terrain := terrain s,
             characters := updateCharacterGravity (characters s) (terrain s)\<rparr>"
  using assms(2-4)
  by (simp add: tick_arena_def updateProjectiles_arena_def updateProjectilesWith_single[OF assms(1)]
      stepProjectile_arena_def Let_def grenadeAdvance_def)

lemma tick_arena_explode:
  assumes "projectiles s = [g]" "proj_type g = ''grenade''" "active g" "fuseTime g \<le> 1"
  shows "tick_arena s =
           (let p = grenadeAdvance (wind s) (terrain s) g;
                T = destroyTerrain_arena s (proj_x p) (proj_y p) 35 (Some ''grenade'')
            in s\<lparr>projectiles := [],
                 terrain := T,
                 characters := updateCharacterGravity
                                 (applyDamage s (proj_x p) (proj_y p) 50 35) T\<rparr>)"
  using assms(2-4)
  by (simp add: tick_arena_def updateProjectiles_arena_def updateProjectilesWith_single[OF assms(1)]
      stepProjectile_arena_def Let_def grenadeAdvance_def findWeapon_grenade)

lemma tick_part0_fly:
  assumes "projectiles s = [g]" "proj_type g = ''grenade''" "active g" "0 < fuseTime g"
  shows "tick_part0 s =
           s\<lparr>projectiles := [grenadeAdvance (wind s) (terrain s) g],
             terrain := terrain s,
             characters := updateCharacterGravity (characters s) (terrain s)\<rparr>"
  using assms(2-4)
  by (simp add: tick_part0_def updateProjectiles_part0_def updateProjectilesWith_single[OF assms(1)]
      stepProjectile_part0_def Let_def grenadeAdvance_def)

lemma tick_part0_explode:
  assumes "projectiles s = [g]" "proj_type g = ''grenade''" "active g" "fuseTime g \<le> 0"
  shows "tick_part0 s =
           (let T = destroyTerrain_part0 s (proj_x g) (proj_y g) 35 (Some ''grenade'')
            in s\<lparr>projectiles := [],
                 terrain := T,
                 characters := updateCharacterGravity
                                 (applyDamage s (proj_x g) (proj_y g) 50 35) T\<rparr>)"
  using assms(2-4)
  by (simp add: tick_part0_def updateProjectiles_part0_def updateProjectilesWith_single[OF assms(1)]
      stepProjectile_part0_def Let_def findWeapon_grenade)

lemma arena_flight:
  assumes "projectiles s = [g]" "proj_type g = ''grenade''" "active g" "int k < fuseTime g"
  shows "projectiles ((tick_arena ^^ k) s) = [grenadeFlight (wind s) (terrain s) k g] \<and>
         terrain ((tick_arena ^^ k) s) = terrain s \<and> wind ((tick_arena ^^ k) s) = wind s"
  using assms(4)
proof (induction k)
  case 0
  then show ?case using assms(1) by simp
next
  case (Suc k)
  let ?sk = "(tick_arena ^^ k) s"
  let ?gk = "grenadeFlight (wind s) (terrain s) k g"
  have ih: "projectiles ?sk = [?gk]" "terrain ?sk = terrain s" "wind ?sk = wind s"
    using Suc by simp_all
  have "1 < fuseTime ?gk" using Suc.prems by simp
  then have "tick_arena ?sk =
      ?sk\<lparr>projectiles := [grenadeAdvance (wind ?sk) (terrain ?sk) ?gk],
          terrain := terrain ?sk,
          characters := updateCharacterGravity (characters ?sk) (terrain ?sk)\<rparr>"
    using assms(2,3) by (intro tick_arena_fly ih(1)) simp_all
  then show ?case by (simp add: ih)
qed

lemma part0_flight:
  assumes "projectiles s = [g]" "proj_type g = ''grenade''" "active g" "int k \<le> fuseTime g"
  shows "projectiles ((tick_part0 ^^ k) s) = [grenadeFlight (wind s) (terrain s) k g] \<and>
         terrain ((tick_part0 ^^ k) s) = terrain s \<and> wind ((tick_part0 ^^ k) s) = wind s"
  using assms(4)
proof (induction k)
  case 0
  then show ?case using assms(1) by simp
next
  case (Suc k)
  let ?sk = "(tick_part0 ^^ k) s"
  let ?gk = "grenadeFlight (wind s) (terrain s) k g"
  have ih: "projectiles ?sk = [?gk]" "terrain ?sk = terrain s" "wind ?sk = wind s"
    using Suc by simp_all
  have "0 < fuseTime ?gk" using Suc.prems by simp
  then have "tick_part0 ?sk =
      ?sk\<lparr>projectiles := [grenadeAdvance (wind ?sk) (terrain ?sk) ?gk],
          terrain := terrain ?sk,
          characters := updateCharacterGravity (characters ?sk) (terrain ?sk)\<rparr>"
    using assms(2,3) by (intro tick_part0_fly ih(1)) simp_all
  then show ?case by (simp add: ih)
qed

lemma arena_explosion:
  assumes "projectiles s = [g]" "proj_type g = ''grenade''" "active g" "fuseTime g = int (Suc n)"
  shows "(tick_arena ^^ Suc n) s =
           (let sn = (tick_arena ^^ n) s;
                p = grenadeFlight (wind s) (terrain s) (Suc n) g;
                T = destroyTerrain_arena sn (proj_x p) (proj_y p) 35 (Some ''grenade'')
            in sn\<lparr>projectiles := [],
                  terrain := T,
                  characters := updateCharacterGravity
                                  (applyDamage sn (proj_x p) (proj_y p) 50 35) T\<rparr>)"
proof -
  let ?sn = "(tick_arena ^^ n) s"
  let ?gn = "grenadeFlight (wind s) (terrain s) n g"
  have f: "projectiles ?sn = [?gn]" "terrain ?sn = terrain s" "wind ?sn = wind s"
    using arena_flight[OF assms(1-3), of n] assms(4) by simp_all
  have "fuseTime ?gn \<le> 1" using assms(4) by simp
  then have "tick_arena ?sn =
      (let p = grenadeAdvance (wind ?sn) (terrain ?sn) ?gn;
           T = destroyTerrain_arena ?sn (proj_x p) (proj_y p) 35 (Some ''grenade'')
       in ?sn\<lparr>projectiles := [], terrain := T,
              characters := updateCharacterGravity
                              (applyDamage ?sn (proj_x p) (proj_y p) 50 35) T\<rparr>)"
    using assms(2,3) by (intro tick_arena_explode f(1)) simp_all
  then show ?thesis by (simp add: f Let_def)
qed

lemma part0_explosion:
  assumes "projectiles s = [g]" "proj_type g = ''grenade''" "active g" "fuseTime g = int n"
  shows "(tick_part0 ^^ Suc n) s =
           (let sn = (tick_part0 ^^ n) s;
                p = grenadeFlight (wind s) (terrain s) n g;
                T = destroyTerrain_part0 sn (proj_x p) (proj_y p) 35 (Some ''grenade'')
            in sn\<lparr>projectiles := [],
                  terrain := T,
                  characters := updateCharacterGravity
                                  (applyDamage sn (proj_x p) (proj_y p) 50 35) T\<rparr>)"
proof -
  let ?sn = "(tick_part0 ^^ n) s"
  let ?gn = "grenadeFlight (wind s) (terrain s) n g"
  have f: "projectiles ?sn = [?gn]" "terrain ?sn = terrain s" "wind ?sn = wind s"
    using part0_flight[OF assms(1-3), of n] assms(4) by simp_all
  have "fuseTime ?gn \<le> 0" using assms(4) by simp
  then have "tick_part0 ?sn =
      (let T = destroyTerrain_part0 ?sn (proj_x ?gn) (proj_y ?gn) 35 (Some ''grenade'')
       in ?sn\<lparr>projectiles := [], terrain := T,
              characters := updateCharacterGravity
                              (applyDamage ?sn (proj_x ?gn) (proj_y ?gn) 50 35) T\<rparr>)"
    using assms(2,3) by (intro tick_part0_explode f(1)) simp_all
  then show ?thesis by (simp add: Let_def)
qed

lemma getTerrainHeight_deep [simp]: "getTerrainHeight 500 deepTerrain = 100000"
  by (simp add: getTerrainHeight_def deepTerrain_def)

lemma deepMatch_fields [simp]:
  "projectiles deepMatch = [droppedGrenade]" "terrain deepMatch = deepTerrain"
  "wind deepMatch = 0"
  by (simp_all add: deepMatch_def initializeGame_def)

lemma droppedGrenade_fields [simp]:
  "proj_type droppedGrenade = ''grenade''" "active droppedGrenade"
  "fuseTime droppedGrenade = 180"
  by (simp_all add: droppedGrenade_def)

lemma dropped_step:
  fixes y vy :: real
  assumes "0 < y" "0 \<le> vy" "y + (vy + 1/2) < 99995"
  shows "\<not> grenadeBounced 0 deepTerrain (droppedGrenade\<lparr>proj_y := y, proj_vy := vy, fuseTime := f\<rparr>)"
    and "grenadeAdvance 0 deepTerrain (droppedGrenade\<lparr>proj_y := y, proj_vy := vy, fuseTime := f\<rparr>) =
           droppedGrenade\<lparr>proj_y := y + (vy + 1/2), proj_vy := vy + 1/2, fuseTime := f - 1\<rparr>"
proof -
  have p: "\<not> y + (vy + 1/2) \<le> 0" "\<not> 99995 \<le> y + (vy + 1/2)"
    using assms by linarith+
  show "\<not> grenadeBounced 0 deepTerrain (droppedGrenade\<lparr>proj_y := y, proj_vy := vy, fuseTime := f\<rparr>)"
    using p by (simp add: grenadeBounced_def droppedGrenade_def Let_def add.assoc)
  show "grenadeAdvance 0 deepTerrain (droppedGrenade\<lparr>proj_y := y, proj_vy := vy, fuseTime := f\<rparr>) =
           droppedGrenade\<lparr>proj_y := y + (vy + 1/2), proj_vy := vy + 1/2, fuseTime := f - 1\<rparr>"
    using p by (simp add: grenadeAdvance_def grenadePhysics_def droppedGrenade_def Let_def add.assoc)
qed

lemma drop_arith:
  fixes k :: nat
  shows "10 + real k * (real k + 1) / 4 + (real k / 2 + 1/2)
         = 10 + real (Suc k) * (real (Suc k) + 1) / 4"
    and "real k / 2 + 1/2 = real (Suc k) / 2"
  by (simp_all add: field_simps)

lemma drop_bound:
  fixes k :: nat
  assumes "k \<le> 180"
  shows "10 + real (Suc k) * (real (Suc k) + 1) / 4 < 99995"
proof -
  have "real (Suc k) \<le> 181" using assms by simp
  then have "real (Suc k) * (real (Suc k) + 1) \<le> 181 * 182"
    by (intro mult_mono) simp_all
  then show ?thesis by linarith
qed

lemma dropped_flight:
  "k \<le> 180 \<Longrightarrow>
   grenadeFlight 0 deepTerrain k droppedGrenade =
     droppedGrenade\<lparr>proj_y := 10 + real k * (real k + 1) / 4, proj_vy := real k / 2,
                    fuseTime := 180 - int k\<rparr> \<and>
   freeFlight 0 deepTerrain k droppedGrenade"
proof (induction k)
  case 0
  then show ?case by (simp add: droppedGrenade_def)
next
  case (Suc k)
  then have k: "k \<le> 180" by simp
  let ?y = "10 + real k * (real k + 1) / 4"
  let ?vy = "real k / 2"
  let ?gk = "droppedGrenade\<lparr>proj_y := ?y, proj_vy := ?vy, fuseTime := 180 - int k\<rparr>"
  have ih: "grenadeFlight 0 deepTerrain k droppedGrenade = ?gk"
    "freeFlight 0 deepTerrain k droppedGrenade"
    using Suc.IH[OF k] by simp_all
  have y: "0 < ?y"
  proof -
    have "0 \<le> real k * (real k + 1) / 4" by simp
    then show ?thesis by linarith
  qed
  have vy: "0 \<le> ?vy" by simp
  have b: "?y + (?vy + 1/2) < 99995"
    unfolding drop_arith(1) using k by (rule drop_bound)
  have nb: "\<not> grenadeBounced 0 deepTerrain ?gk"
    using y vy b by (rule dropped_step(1))
  have e3: "180 - int k - 1 = 180 - int (Suc k)" by simp
  have adv: "grenadeAdvance 0 deepTerrain ?gk =
      droppedGrenade\<lparr>proj_y := 10 + real (Suc k) * (real (Suc k) + 1) / 4,
                     proj_vy := real (Suc k) / 2, fuseTime := 180 - int (Suc k)\<rparr>"
    using dropped_step(2)[OF y vy b, of "180 - int k", unfolded drop_arith(1),
        unfolded drop_arith(2) e3] .
  have "grenadeFlight 0 deepTerrain (Suc k) droppedGrenade = grenadeAdvance 0 deepTerrain ?gk"
    "freeFlight 0 deepTerrain (Suc k) droppedGrenade"
    using ih nb by simp_all
  then show ?case using adv by (simp only: simp_thms)
qed

text \<open>
  C3 (a grenade launched with a fuse of 180 that meets no bouncing surface explodes exactly
  180 ticks after launch, where it then is).  As stated this fails in \<^verbatim>\<open>unnamed/part_000\<close>,
  which tests the fuse before it decrements it: the grenade dropped over the deep ground
  flies free for 180 ticks, and after the 180th tick it is still in the list, active, with
  a fuse of 0, over untouched terrain.
\<close>

theorem C3_counterexample:
  "fuseTime droppedGrenade = 180 \<and>
   freeFlight (wind deepMatch) (terrain deepMatch) 180 droppedGrenade \<and>
   projectiles ((tick_part0 ^^ 180) deepMatch) =
     [droppedGrenade\<lparr>proj_y := 8155, proj_vy := 90, fuseTime := 0\<rparr>] \<and>
   active (droppedGrenade\<lparr>proj_y := 8155, proj_vy := 90, fuseTime := 0\<rparr>) \<and>
   terrain ((tick_part0 ^^ 180) deepMatch) = terrain deepMatch"
proof -
  have "projectiles ((tick_part0 ^^ 180) deepMatch) =
          [grenadeFlight (wind deepMatch) (terrain deepMatch) 180 droppedGrenade] \<and>
        terrain ((tick_part0 ^^ 180) deepMatch) = terrain deepMatch \<and>
        wind ((tick_part0 ^^ 180) deepMatch) = wind deepMatch"
    by (rule part0_flight) simp_all
  then show ?thesis using dropped_flight[of 180] by simp
qed

text \<open>
  C3, amended: a grenade with a fuse of 180 that is the only projectile, bouncing or not.
  In \<^verbatim>\<open>GameArena.tsx\<close> it is in flight after each of the first 179 ticks and the 180th
  tick is its explosion: it leaves the list, and the terrain is eroded and the damage
  applied (radius 35, damage 50) at the position its 180th physics step gave it.
  In \<^verbatim>\<open>unnamed/part_000\<close> it is in flight after each of the first 180 ticks and the 181st
  tick is its explosion, at the position its 180th physics step gave it (that tick does
  not move it).
\<close>

theorem C3_grenade_fuse:
  assumes "projectiles s = [g]" and "proj_type g = ''grenade''" and "active g"
    and "fuseTime g = 180"
  shows "(\<forall>k<180. projectiles ((tick_arena ^^ k) s) = [grenadeFlight (wind s) (terrain s) k g] \<and>
                  active (grenadeFlight (wind s) (terrain s) k g) \<and>
                  terrain ((tick_arena ^^ k) s) = terrain s) \<and>
         (let s' = (tick_arena ^^ 179) s;
              p = grenadeFlight (wind s) (terrain s) 180 g;
              T = destroyTerrain_arena s' (proj_x p) (proj_y p) 35 (Some ''grenade'')
          in (tick_arena ^^ 180) s =
               s'\<lparr>projectiles := [], terrain := T,
                  characters := updateCharacterGravity
                                  (applyDamage s' (proj_x p) (proj_y p) 50 35) T\<rparr>) \<and>
         (\<forall>k\<le>180. projectiles ((tick_part0 ^^ k) s) = [grenadeFlight (wind s) (terrain s) k g] \<and>
                  active (grenadeFlight (wind s) (terrain s) k g) \<and>
                  terrain ((tick_part0 ^^ k) s) = terrain s) \<and>
         (let s' = (tick_part0 ^^ 180) s;
              p = grenadeFlight (wind s) (terrain s) 180 g;
              T = destroyTerrain_part0 s' (proj_x p) (proj_y p) 35 (Some ''grenade'')
          in (tick_part0 ^^ 181) s =
               s'\<lparr>projectiles := [], terrain := T,
                  characters := updateCharacterGravity
                                  (applyDamage s' (proj_x p) (proj_y p) 50 35) T\<rparr>)"
proof -
  have a: "\<forall>k<180. projectiles ((tick_arena ^^ k) s) = [grenadeFlight (wind s) (terrain s) k g] \<and>
                  active (grenadeFlight (wind s) (terrain s) k g) \<and>
                  terrain ((tick_arena ^^ k) s) = terrain s"
    using arena_flight[OF assms(1-3)] assms(3,4) by simp
  have b: "\<forall>k\<le>180. projectiles ((tick_part0 ^^ k) s) = [grenadeFlight (wind s) (terrain s) k g] \<and>
                  active (grenadeFlight (wind s) (terrain s) k g) \<and>
                  terrain ((tick_part0 ^^ k) s) = terrain s"
    using part0_flight[OF assms(1-3)] assms(3,4) by simp
  have e1: "fuseTime g = int (Suc 179)" and e2: "fuseTime g = int 180"
    using assms(4) by simp_all
  have n: "(180::nat) = Suc 179" "(181::nat) = Suc 180" by simp_all
  have c: "(tick_arena ^^ 180) s =
           (let s' = (tick_arena ^^ 179) s;
                p = grenadeFlight (wind s) (terrain s) 180 g;
                T = destroyTerrain_arena s' (proj_x p) (proj_y p) 35 (Some ''grenade'')
            in s'\<lparr>projectiles := [], terrain := T,
                  characters := updateCharacterGravity
                                  (applyDamage s' (proj_x p) (proj_y p) 50 35) T\<rparr>)"
    using arena_explosion[OF assms(1-3) e1] unfolding n(1)[symmetric] .
  have d: "(tick_part0 ^^ 181) s =
           (let s' = (tick_part0 ^^ 180) s;
                p = grenadeFlight (wind s) (terrain s) 180 g;
                T = destroyTerrain_part0 s' (proj_x p) (proj_y p) 35 (Some ''grenade'')
            in s'\<lparr>projectiles := [], terrain := T,
                  characters := updateCharacterGravity
                                  (applyDamage s' (proj_x p) (proj_y p) 50 35) T\<rparr>)"
    using part0_explosion[OF assms(1-3) e2] unfolding n(2)[symmetric] .
  show ?thesis using a b c d unfolding Let_def by blast
qed

theorem C3_grenade_fuse_witness:
  "projectiles ((tick_arena ^^ 179) deepMatch) \<noteq> [] \<and>
   projectiles ((tick_arena ^^ 180) deepMatch) = [] \<and>
   projectiles ((tick_part0 ^^ 180) deepMatch) \<noteq> [] \<and>
   projectiles ((tick_part0 ^^ 181) deepMatch) = [] \<and>
   map fuseTime (projectiles (fst (fireWeapon_arena grenadeAim grenadeAim))) = [180] \<and>
   projectiles ((tick_arena ^^ 179) (fst (fireWeapon_arena grenadeAim grenadeAim))) \<noteq> [] \<and>
   projectiles ((tick_arena ^^ 180) (fst (fireWeapon_arena grenadeAim grenadeAim))) = []"
proof -
  let ?s = "fst (fireWeapon_arena grenadeAim grenadeAim)"
  let ?g = "hd (projectiles ?s)"
  have fuse: "fuseTimeOf (findWeapon ''grenade'') = 180"
    by (simp add: fuseTimeOf_def findWeapon_def VEGAN_WEAPONS_def)
  have l: "projectiles ?s = [?g]" "proj_type ?g = ''grenade''" "active ?g" "fuseTime ?g = 180"
    by (simp_all add: grenadeAim_def fireWeapon_arena_def Let_def fuse)
  have f: "map fuseTime (projectiles ?s) = [180]"
    by (simp add: grenadeAim_def fireWeapon_arena_def Let_def fuse)
  have a: "projectiles ((tick_arena ^^ 179) ?s) \<noteq> [] \<and>
           projectiles ((tick_arena ^^ 180) ?s) = []"
    using C3_grenade_fuse [OF l] by (simp add: Let_def)
  have b: "projectiles ((tick_arena ^^ 179) deepMatch) \<noteq> [] \<and>
           projectiles ((tick_arena ^^ 180) deepMatch) = [] \<and>
           projectiles ((tick_part0 ^^ 180) deepMatch) \<noteq> [] \<and>
           projectiles ((tick_part0 ^^ 181) deepMatch) = []"
    using C3_grenade_fuse [of deepMatch droppedGrenade] by (simp add: Let_def)
  show ?thesis using f a b by (simp only: simp_thms)
qed

section \<open>Uzi burst\<close>

lemma burst_indices: "[0..<5] = [0, 1, 2, 3, Suc 3]"
  by (simp add: upt_rec)

lemma spread_bounds:
  fixes r :: real
  assumes "0 \<le> r" "r < 1"
  shows "\<bar>(r - 0.5) * 0.3\<bar> \<le> 0.15" and "0.9 \<le> 0.9 + r * 0.2" and "0.9 + r * 0.2 \<le> 1.1"
proof -
  have "(r - 0.5) * 0.3 \<le> 0.15" "- 0.15 \<le> (r - 0.5) * 0.3"
    using assms by simp_all
  then show "\<bar>(r - 0.5) * 0.3\<bar> \<le> 0.15" by (simp only: abs_le_iff minus_le_iff)
  show "0.9 \<le> 0.9 + r * 0.2" "0.9 + r * 0.2 \<le> 1.1"
    using assms by simp_all
qed

text \<open>
  C6 (every fire command in the aiming phase with the uzi selected spawns exactly 5
  projectiles, 80 ms apart, each with its own spread and power scaling).  As stated this
  fails in \<^verbatim>\<open>GameArena.tsx\<close>, whose \<^verbatim>\<open>fireWeapon\<close> has no burst: the uzi adds one
  projectile at once and registers the turn timer only.
\<close>

theorem C6_counterexample:
  "gamePhase uziAim = aiming \<and> selectedWeapon uziAim = ''uzi'' \<and>
   currentPlayer uziAim < length (characters uziAim) \<and>
   projectiles uziAim = [] \<and>
   length (projectiles (fst (fireWeapon_arena uziAim uziAim))) = 1 \<and>
   snd (fireWeapon_arena uziAim uziAim) = [(3000, SwitchTurn)]"
  by (simp add: uziAim_def fireWeapon_arena_def Let_def)

text \<open>
  C6, amended: in \<^verbatim>\<open>unnamed/part_000\<close> a fire command in the aiming phase with the uzi
  selected adds no projectile at once and registers five timers, at 0, 80, 160, 240 and
  320 ms, each adding one projectile (and the turn timer at 4000 ms).  Bullet \<open>i\<close> has its
  own draws: it is launched at the aim angle plus a spread within \<open>\<plusminus>0.15\<close> rad, with the
  aim power scaled by a factor between 0.9 and 1.1, it is active and of type \<open>uzi\<close>, and
  \<^verbatim>\<open>updateProjectiles\<close> steps it by the branch of the projectiles that do not bounce.
  In \<^verbatim>\<open>GameArena.tsx\<close> the same command adds a single projectile at once, launched at the
  aim angle and power, and registers the turn timer at 3000 ms.
\<close>

theorem C6_uzi_burst:
  assumes "currentPlayer gs < length (characters gs)" and "gamePhase gs = aiming"
    and "selectedWeapon gs = ''uzi''" and "\<forall>k. 0 \<le> rnd k \<and> rnd k < 1"
  shows "(let c = characters gs ! currentPlayer gs;
              pw = power gs / 100 * 25;
              ang = angle gs * pi / 180;
              b = uziBullet rnd gs c pw ang
          in fireWeapon_part0 rnd gs prev =
               (prev\<lparr>gamePhase := firing\<rparr>,
                [(0, AddProjectile (b 0)), (80, AddProjectile (b 1)), (160, AddProjectile (b 2)),
                 (240, AddProjectile (b 3)), (320, AddProjectile (b 4)), (4000, SwitchTurn)]) \<and>
             (\<forall>i<5. proj_vx (b i) = cos (ang + (rnd (4 * i) - 0.5) * 0.3) * pw
                                       * (0.9 + rnd (4 * i + 1) * 0.2) \<and>
                     proj_vy (b i) = - sin (ang + (rnd (4 * i) - 0.5) * 0.3) * pw
                                       * (0.9 + rnd (4 * i + 1) * 0.2) \<and>
                     \<bar>(rnd (4 * i) - 0.5) * 0.3\<bar> \<le> 0.15 \<and>
                     0.9 \<le> 0.9 + rnd (4 * i + 1) * 0.2 \<and> 0.9 + rnd (4 * i + 1) * 0.2 \<le> 1.1 \<and>
                     proj_type (b i) = ''uzi'' \<and> active (b i) \<and>
                     (\<forall>gs' prev' acc. stepProjectile_part0 gs' prev' (b i) acc =
                                        standardStep destroyTerrain_part0 gs' prev' (b i) acc)) \<and>
             fireWeapon_arena gs prev =
               (prev\<lparr>projectiles := projectiles prev @
                      [\<lparr>proj_x = char_x c, proj_y = char_y c - 10, proj_vx = cos ang * pw,
                        proj_vy = - sin ang * pw, proj_type = ''uzi'', proj_team = char_team c,
                        active = True, bounces = 0, fuseTime = 0\<rparr>],
                     gamePhase := firing\<rparr>,
                [(3000, SwitchTurn)]))"
proof -
  let ?c = "characters gs ! currentPlayer gs"
  let ?pw = "power gs / 100 * 25"
  let ?ang = "angle gs * pi / 180"
  let ?b = "uziBullet rnd gs ?c ?pw ?ang"
  have fuse: "fuseTimeOf (findWeapon ''uzi'') = 0"
    by (simp add: fuseTimeOf_def findWeapon_def VEGAN_WEAPONS_def)
  have fire: "fireWeapon_part0 rnd gs prev =
               (prev\<lparr>gamePhase := firing\<rparr>,
                [(0, AddProjectile (?b 0)), (80, AddProjectile (?b 1)), (160, AddProjectile (?b 2)),
                 (240, AddProjectile (?b 3)), (320, AddProjectile (?b 4)), (4000, SwitchTurn)])"
    using assms(1-3) by (simp add: fireWeapon_part0_def Let_def burst_indices)
  have bullet: "proj_vx (?b i) = cos (?ang + (rnd (4 * i) - 0.5) * 0.3) * ?pw
                                       * (0.9 + rnd (4 * i + 1) * 0.2) \<and>
                     proj_vy (?b i) = - sin (?ang + (rnd (4 * i) - 0.5) * 0.3) * ?pw
                                       * (0.9 + rnd (4 * i + 1) * 0.2) \<and>
                     \<bar>(rnd (4 * i) - 0.5) * 0.3\<bar> \<le> 0.15 \<and>
                     0.9 \<le> 0.9 + rnd (4 * i + 1) * 0.2 \<and> 0.9 + rnd (4 * i + 1) * 0.2 \<le> 1.1 \<and>
                     proj_type (?b i) = ''uzi'' \<and> active (?b i) \<and>
                     (\<forall>gs' prev' acc. stepProjectile_part0 gs' prev' (?b i) acc =
                                        standardStep destroyTerrain_part0 gs' prev' (?b i) acc)" for i
  proof -
    have r: "0 \<le> rnd (4 * i)" "rnd (4 * i) < 1" "0 \<le> rnd (4 * i + 1)" "rnd (4 * i + 1) < 1"
      using assms(4) by simp_all
    have t: "proj_type (?b i) = ''uzi''" "active (?b i)"
      using assms(3) by (simp_all add: uziBullet_def Let_def)
    have v: "proj_vx (?b i) = cos (?ang + (rnd (4 * i) - 0.5) * 0.3) * ?pw
                                       * (0.9 + rnd (4 * i + 1) * 0.2)"
      "proj_vy (?b i) = - sin (?ang + (rnd (4 * i) - 0.5) * 0.3) * ?pw
                                       * (0.9 + rnd (4 * i + 1) * 0.2)"
      by (simp_all add: uziBullet_def Let_def)
    have s: "stepProjectile_part0 gs' prev' (?b i) acc =
             standardStep destroyTerrain_part0 gs' prev' (?b i) acc" for gs' prev' acc
      using t by (simp add: stepProjectile_part0_def)
    show ?thesis
      using t v s spread_bounds[OF r(1,2)] spread_bounds[OF r(3,4)] by blast
  qed
  have arena: "fireWeapon_arena gs prev =
               (prev\<lparr>projectiles := projectiles prev @
                      [\<lparr>proj_x = char_x ?c, proj_y = char_y ?c - 10, proj_vx = cos ?ang * ?pw,
                        proj_vy = - sin ?ang * ?pw, proj_type = ''uzi'', proj_team = char_team ?c,
                        active = True, bounces = 0, fuseTime = 0\<rparr>],
                     gamePhase := firing\<rparr>,
                [(3000, SwitchTurn)])"
    using assms(1-3) by (simp add: fireWeapon_arena_def Let_def fuse)
  show ?thesis
    unfolding Let_def using fire bullet arena by blast
qed

theorem C6_uzi_burst_witness:
  "map fst (snd (fireWeapon_part0 (\<lambda>k. 1/2) uziAim uziAim)) = [0, 80, 160, 240, 320, 4000] \<and>
   projectiles (fst (fireWeapon_part0 (\<lambda>k. 1/2) uziAim uziAim)) = [] \<and>
   length (projectiles (fst (fireWeapon_arena uziAim uziAim))) = 1"
proof -
  have h: "currentPlayer uziAim < length (characters uziAim)" "gamePhase uziAim = aiming"
    "selectedWeapon uziAim = ''uzi''" "\<forall>k::nat. (0::real) \<le> 1/2 \<and> (1/2::real) < 1"
    "projectiles uziAim = []"
    by (simp_all add: uziAim_def)
  show ?thesis
    using C6_uzi_burst [OF h(1-3), of "\<lambda>k. 1/2" uziAim] h(5)
    by (simp add: Let_def)
qed

end
